theory Spec2Isabelle
  imports Main "HOL-Library.Word" "HOL-Library.Monad_Syntax"
begin

section \<open>Shard-level topology mutations of the wrangler (go/vt/wrangler/shard.go)\<close>

text \<open>
  The wrangler mutates shard metadata through a topology server (the Go interface
  \<^verbatim>\<open>topo.Server\<close>). Every method of that interface is an effect on a store the
  wrangler does not own, so the model threads an explicit world: the state of the store
  plus the list of everything the wrangler has done so far (the calls it has issued and
  the lines it has logged, oldest first). Go's \<^verbatim>\<open>error\<close> results are values: a
  \<^verbatim>\<open>nil\<close> error is \<open>None\<close>, a pair \<^verbatim>\<open>(value, error)\<close> is a sum with the
  error on the left.
\<close>

subsection \<open>Data of package topo used by shard.go\<close>

text \<open>\<^verbatim>\<open>type TabletType string\<close>: \<^verbatim>\<open>vtgate_proto.go\<close> converts it to and from \<^verbatim>\<open>string\<close>.\<close>

type_synonym TabletType = string

text \<open>
  Modelled from the spec: \<^verbatim>\<open>topo.TabletAlias\<close> is declared outside src/. It is the
  identity of a tablet, "including its cell"; shard.go reads only the field \<^verbatim>\<open>Cell\<close>,
  the rest of the identity is kept as a number.
\<close>

record TabletAlias =
  Cell :: string
  Uid :: "32 word"

text \<open>
  Modelled from the spec: \<^verbatim>\<open>topo.ShardInfo\<close> is declared outside src/. A shard is
  identified by (keyspace, shard name) and carries \<^verbatim>\<open>Cells\<close>, \<^verbatim>\<open>MasterAlias\<close> and
  \<^verbatim>\<open>ServedTypes\<close>, the three attributes shard.go reads and writes.
\<close>

record ShardInfo =
  keyspace :: string
  shardName :: string
  MasterAlias :: TabletAlias
  ServedTypes :: "TabletType list"
  Cells :: "string list"

text \<open>
  Modelled from the spec: \<^verbatim>\<open>topo.ShardReplicationInfo\<close> is declared outside src/. It
  lists the replication links (master to replica) known in one cell; shard.go only takes
  the length of \<^verbatim>\<open>ReplicationLinks\<close>.
\<close>

record ShardReplicationInfo =
  ReplicationLinks :: "(TabletAlias \<times> TabletAlias) list"

text \<open>
  Modelled from the spec: the result type of \<^verbatim>\<open>GetTabletMapForShard\<close> is declared
  outside src/. It is a "mapping of tablet identity to tablet record, used only to test
  emptiness": shard.go takes its length and nothing else, so it is represented by the
  list of its keys.
\<close>

type_synonym TabletMap = "TabletAlias list"

text \<open>
  Modelled from the spec: \<^verbatim>\<open>topo.InCellList\<close> is declared outside src/. The spec
  reads the check it implements as "Cell must be present in Shard.Cells".
\<close>

definition InCellList :: "string \<Rightarrow> string list \<Rightarrow> bool" where
  "InCellList cell cells = (cell \<in> set cells)"

subsection \<open>Errors\<close>

text \<open>
  An error a topology server returns is either the sentinel \<^verbatim>\<open>topo.ErrNoNode\<close>, which
  shard.go compares against with \<^verbatim>\<open>==\<close>, or any other error value, kept with the
  text that identifies it.
\<close>

datatype topo_error = ErrNoNode | TopoError string

text \<open>
  Modelled from the spec: the kind of an action node (package actionnode is outside src/),
  one for each of the two constructors shard.go calls.
\<close>

datatype ActionName = SHARD_ACTION_SET_SERVED_TYPES | SHARD_ACTION_UPDATE_SHARD

text \<open>
  An error built by \<^verbatim>\<open>fmt.Errorf\<close> keeps its format string and its arguments as the
  source passes them; so do the log lines. Errors made by the wrangler are thereby
  distinct from every error a server returns, as two Go error values are.
\<close>

datatype fmt_arg =
    ArgString string
  | ArgInt int
  | ArgAction ActionName
  | ArgAlias TabletAlias
  | ArgError error
and error =
    Topo topo_error
  | Errorf string "fmt_arg list"

text \<open>The four precondition failures of shard.go, named as the spec names them.\<close>

definition ShardNotEmpty :: "string \<Rightarrow> string \<Rightarrow> nat \<Rightarrow> error" where
  "ShardNotEmpty ks sh n =
     Errorf ''shard %v/%v still has %v tablets'' [ArgString ks, ArgString sh, ArgInt (int n)]"

definition CellNotPresent :: "string \<Rightarrow> error" where
  "CellNotPresent cell = Errorf ''cell %v in not in shard info'' [ArgString cell]"

definition MasterInCell :: "TabletAlias \<Rightarrow> string \<Rightarrow> error" where
  "MasterInCell alias cell =
     Errorf ''master %v is in the cell '%v' we want to remove'' [ArgAlias alias, ArgString cell]"

definition ReplicationLinksPresent :: "string \<Rightarrow> nat \<Rightarrow> error" where
  "ReplicationLinksPresent cell n =
     Errorf ''cell %v has %v possible tablets in replication graph''
       [ArgString cell, ArgInt (int n)]"

subsection \<open>The action node\<close>

text \<open>
  Modelled from the spec: package actionnode is outside src/. An ActionNode is
  "{Kind, State in {Queued, Done, Failed}, Error} plus action-specific payload (e.g., the
  new served-types list)", "created fresh per call" in state Queued.
\<close>

datatype ActionState = ACTION_STATE_QUEUED | ACTION_STATE_FAILED | ACTION_STATE_DONE

record ActionNode =
  Action :: ActionName
  Args :: "TabletType list option"
  Error :: string
  State :: ActionState

definition SetShardServedTypes_actionnode :: "TabletType list \<Rightarrow> ActionNode" where
  "SetShardServedTypes_actionnode servedTypes =
     \<lparr>Action = SHARD_ACTION_SET_SERVED_TYPES, Args = Some servedTypes,
      Error = [], State = ACTION_STATE_QUEUED\<rparr>"

definition UpdateShard_actionnode :: ActionNode where
  "UpdateShard_actionnode =
     \<lparr>Action = SHARD_ACTION_UPDATE_SHARD, Args = None,
      Error = [], State = ACTION_STATE_QUEUED\<rparr>"

subsection \<open>The topology server and the world\<close>

text \<open>
  The methods of \<^verbatim>\<open>topo.Server\<close> that shard.go calls, over any store state \<open>'s\<close>:
  each takes the state and returns its result with the new state. Nothing is assumed
  about an implementation. \<^verbatim>\<open>DeleteShard\<close> of the server is suffixed, the wrangler
  has a method of the same name.
\<close>

record 's Server =
  LockShardForAction :: "string \<Rightarrow> string \<Rightarrow> string \<Rightarrow> int \<Rightarrow> 's \<Rightarrow> (topo_error + string) \<times> 's"
  UnlockShardForAction :: "string \<Rightarrow> string \<Rightarrow> string \<Rightarrow> string \<Rightarrow> 's \<Rightarrow> topo_error option \<times> 's"
  GetShard :: "string \<Rightarrow> string \<Rightarrow> 's \<Rightarrow> (topo_error + ShardInfo) \<times> 's"
  GetShardCritical :: "string \<Rightarrow> string \<Rightarrow> 's \<Rightarrow> (topo_error + ShardInfo) \<times> 's"
  UpdateShard :: "ShardInfo \<Rightarrow> 's \<Rightarrow> topo_error option \<times> 's"
  DeleteShard_Server :: "string \<Rightarrow> string \<Rightarrow> 's \<Rightarrow> topo_error option \<times> 's"
  GetShardReplication :: "string \<Rightarrow> string \<Rightarrow> string \<Rightarrow> 's \<Rightarrow> (topo_error + ShardReplicationInfo) \<times> 's"
  DeleteShardReplication :: "string \<Rightarrow> string \<Rightarrow> string \<Rightarrow> 's \<Rightarrow> topo_error option \<times> 's"
  DeleteSrvTabletType :: "string \<Rightarrow> string \<Rightarrow> string \<Rightarrow> TabletType \<Rightarrow> 's \<Rightarrow> topo_error option \<times> 's"
  DeleteSrvShard :: "string \<Rightarrow> string \<Rightarrow> string \<Rightarrow> 's \<Rightarrow> topo_error option \<times> 's"

text \<open>\<^verbatim>\<open>type Wrangler struct\<close>: the fields shard.go uses.\<close>

record 's Wrangler =
  ts :: "'s Server"
  lockTimeout :: int

text \<open>
  What shard.go uses from outside src/ and the spec does not fix is a parameter of the
  model: the JSON form of an action node, the \<^verbatim>\<open>Error()\<close> text of an error value, the
  table \<^verbatim>\<open>topo.AllTabletTypes\<close> with the predicate \<^verbatim>\<open>topo.IsInServingGraph\<close>, and
  the wrangler's \<^verbatim>\<open>GetTabletMapForShard\<close>, which works through the server it is given.
\<close>

record 's deps =
  ToJson :: "ActionNode \<Rightarrow> string"
  ErrorString :: "error \<Rightarrow> string"
  AllTabletTypes :: "TabletType list"
  IsInServingGraph :: "TabletType \<Rightarrow> bool"
  GetTabletMapForShard ::
    "'s Server \<Rightarrow> string \<Rightarrow> string \<Rightarrow> 's \<Rightarrow> (error + TabletMap) \<times> 's"

text \<open>One entry of the history: a call issued with its arguments, or a log line.\<close>

datatype request =
    LockShardForAction_req string string string int
  | UnlockShardForAction_req string string string string
  | GetShard_req string string
  | GetShardCritical_req string string
  | UpdateShard_req ShardInfo
  | DeleteShard_req string string
  | GetShardReplication_req string string string
  | DeleteShardReplication_req string string string
  | DeleteSrvTabletType_req string string string TabletType
  | DeleteSrvShard_req string string string
  | GetTabletMapForShard_req string string

datatype event =
    Call request
  | Infof string "fmt_arg list"
  | Warningf string "fmt_arg list"

record 's world =
  store :: 's
  events :: "event list"

definition logf :: "event \<Rightarrow> 's world \<Rightarrow> 's world" where
  "logf e w = \<lparr>store = store w, events = events w @ [e]\<rparr>"

definition invoke :: "request \<Rightarrow> ('s \<Rightarrow> 'r \<times> 's) \<Rightarrow> 's world \<Rightarrow> 'r \<times> 's world" where
  "invoke rq f w =
     (case f (store w) of (r, s') \<Rightarrow> (r, \<lparr>store = s', events = events w @ [Call rq]\<rparr>))"

subsection \<open>shard.go\<close>

text \<open>
  \<^verbatim>\<open>lockShard\<close>. The process-wide channel \<^verbatim>\<open>interrupted\<close> only influences whether
  the server returns an error, which the model leaves open.
\<close>

definition lockShard ::
  "'s deps \<Rightarrow> 's Wrangler \<Rightarrow> string \<Rightarrow> string \<Rightarrow> ActionNode \<Rightarrow> 's world
     \<Rightarrow> (topo_error + string) \<times> 's world" where
  "lockShard d wr ks shard actionNode w =
     invoke (LockShardForAction_req ks shard (ToJson d actionNode) (lockTimeout wr))
       (LockShardForAction (ts wr) ks shard (ToJson d actionNode) (lockTimeout wr))
       (logf (Infof ''Locking shard %v/%v for action %v''
                [ArgString ks, ArgString shard, ArgAction (Action actionNode)]) w)"

text \<open>
  \<^verbatim>\<open>unlockShard\<close> updates the action node through its pointer; the model returns the
  updated node next to the error.
\<close>

definition unlockShard ::
  "'s deps \<Rightarrow> 's Wrangler \<Rightarrow> string \<Rightarrow> string \<Rightarrow> ActionNode \<Rightarrow> string \<Rightarrow> error option
     \<Rightarrow> 's world \<Rightarrow> (error option \<times> ActionNode) \<times> 's world" where
  "unlockShard d wr ks shard actionNode lockPath actionError w =
     (let (actionNode1, w1) =
            (case actionError of
               Some e \<Rightarrow>
                 (actionNode\<lparr>Error := ErrorString d e, State := ACTION_STATE_FAILED\<rparr>,
                  logf (Infof ''Unlocking shard %v/%v for action %v with error %v''
                          [ArgString ks, ArgString shard, ArgAction (Action actionNode),
                           ArgError e]) w)
             | None \<Rightarrow>
                 (actionNode\<lparr>Error := [], State := ACTION_STATE_DONE\<rparr>,
                  logf (Infof ''Unlocking shard %v/%v for successful action %v''
                          [ArgString ks, ArgString shard, ArgAction (Action actionNode)]) w));
          (err, w2) =
            invoke (UnlockShardForAction_req ks shard lockPath (ToJson d actionNode1))
              (UnlockShardForAction (ts wr) ks shard lockPath (ToJson d actionNode1)) w1
      in case actionError of
           Some e \<Rightarrow>
             (case err of
                Some ue \<Rightarrow>
                  ((Some e, actionNode1),
                   logf (Warningf ''UnlockShardForAction failed: %v'' [ArgError (Topo ue)]) w2)
              | None \<Rightarrow> ((Some e, actionNode1), w2))
         | None \<Rightarrow> ((map_option Topo err, actionNode1), w2))"

definition setShardServedTypes ::
  "'s Wrangler \<Rightarrow> string \<Rightarrow> string \<Rightarrow> TabletType list \<Rightarrow> 's world \<Rightarrow> error option \<times> 's world" where
  "setShardServedTypes wr ks shard servedTypes w =
     (case invoke (GetShard_req ks shard) (GetShard (ts wr) ks shard) w of
        (Inl err, w1) \<Rightarrow> (Some (Topo err), w1)
      | (Inr shardInfo, w1) \<Rightarrow>
          (let shardInfo1 = shardInfo\<lparr>ServedTypes := servedTypes\<rparr>
           in case invoke (UpdateShard_req shardInfo1) (UpdateShard (ts wr) shardInfo1) w1 of
                (err, w2) \<Rightarrow> (map_option Topo err, w2)))"

definition SetShardServedTypes ::
  "'s deps \<Rightarrow> 's Wrangler \<Rightarrow> string \<Rightarrow> string \<Rightarrow> TabletType list \<Rightarrow> 's world
     \<Rightarrow> error option \<times> 's world" where
  "SetShardServedTypes d wr ks shard servedTypes w =
     (let actionNode = SetShardServedTypes_actionnode servedTypes
      in case lockShard d wr ks shard actionNode w of
           (Inl err, w1) \<Rightarrow> (Some (Topo err), w1)
         | (Inr lockPath, w1) \<Rightarrow>
             (case setShardServedTypes wr ks shard servedTypes w1 of
                (err, w2) \<Rightarrow>
                  (case unlockShard d wr ks shard actionNode lockPath err w2 of
                     ((r, actionNode1), w3) \<Rightarrow> (r, w3))))"

text \<open>
  \<^verbatim>\<open>DeleteShard\<close>, inner loop (lines 91-99): one pass over \<^verbatim>\<open>topo.AllTabletTypes\<close>
  for a cell. The loop has no exit: it only changes the world.
\<close>

fun deleteSrvTabletTypes ::
  "'s deps \<Rightarrow> 's Wrangler \<Rightarrow> string \<Rightarrow> string \<Rightarrow> string \<Rightarrow> TabletType list \<Rightarrow> 's world
     \<Rightarrow> 's world" where
  "deleteSrvTabletTypes d wr cell ks shard [] w = w"
| "deleteSrvTabletTypes d wr cell ks shard (t # rest) w =
     (if \<not> IsInServingGraph d t then deleteSrvTabletTypes d wr cell ks shard rest w
      else
        (case invoke (DeleteSrvTabletType_req cell ks shard t)
                (DeleteSrvTabletType (ts wr) cell ks shard t) w of
           (err, w1) \<Rightarrow>
             deleteSrvTabletTypes d wr cell ks shard rest
               (case err of
                  None \<Rightarrow> w1
                | Some e \<Rightarrow>
                    if e \<noteq> ErrNoNode
                    then logf (Warningf ''Cannot delete EndPoints in cell %v for %v/%v/%v: %v''
                                 [ArgString cell, ArgString ks, ArgString shard, ArgString t,
                                  ArgError (Topo e)]) w1
                    else w1)))"

text \<open>\<^verbatim>\<open>DeleteShard\<close>, outer loop (lines 86-104) over \<^verbatim>\<open>shardInfo.Cells\<close>.\<close>

fun deleteShardCells ::
  "'s deps \<Rightarrow> 's Wrangler \<Rightarrow> string \<Rightarrow> string \<Rightarrow> string list \<Rightarrow> 's world \<Rightarrow> 's world" where
  "deleteShardCells d wr ks shard [] w = w"
| "deleteShardCells d wr ks shard (cell # rest) w =
     (case invoke (DeleteShardReplication_req cell ks shard)
             (DeleteShardReplication (ts wr) cell ks shard) w of
        (err, w1) \<Rightarrow>
          (let w2 = (case err of
                       None \<Rightarrow> w1
                     | Some e \<Rightarrow>
                         logf (Warningf ''Cannot delete ShardReplication in cell %v for %v/%v: %v''
                                 [ArgString cell, ArgString ks, ArgString shard,
                                  ArgError (Topo e)]) w1);
               w3 = deleteSrvTabletTypes d wr cell ks shard (AllTabletTypes d) w2
           in case invoke (DeleteSrvShard_req cell ks shard)
                     (DeleteSrvShard (ts wr) cell ks shard) w3 of
                (err', w4) \<Rightarrow>
                  deleteShardCells d wr ks shard rest
                    (case err' of
                       None \<Rightarrow> w4
                     | Some e \<Rightarrow>
                         if e \<noteq> ErrNoNode
                         then logf (Warningf ''Cannot delete SrvShard in cell %v for %v/%v: %v''
                                      [ArgString cell, ArgString ks, ArgString shard,
                                       ArgError (Topo e)]) w4
                         else w4)))"

definition DeleteShard ::
  "'s deps \<Rightarrow> 's Wrangler \<Rightarrow> string \<Rightarrow> string \<Rightarrow> 's world \<Rightarrow> error option \<times> 's world" where
  "DeleteShard d wr ks shard w =
     (case invoke (GetShard_req ks shard) (GetShard (ts wr) ks shard) w of
        (Inl err, w1) \<Rightarrow> (Some (Topo err), w1)
      | (Inr shardInfo, w1) \<Rightarrow>
          (case invoke (GetTabletMapForShard_req ks shard)
                  (GetTabletMapForShard d (ts wr) ks shard) w1 of
             (Inl err, w2) \<Rightarrow> (Some err, w2)
           | (Inr tabletMap, w2) \<Rightarrow>
               if length tabletMap > 0
               then (Some (ShardNotEmpty ks shard (length tabletMap)), w2)
               else
                 (case invoke (DeleteShard_req ks shard) (DeleteShard_Server (ts wr) ks shard)
                         (deleteShardCells d wr ks shard (Cells shardInfo) w2) of
                    (err, w3) \<Rightarrow> (map_option Topo err, w3))))"

text \<open>
  \<^verbatim>\<open>removeShardCell\<close>, lines 168-173: the loop that appends to \<^verbatim>\<open>newCells\<close> every
  entry different from \<^verbatim>\<open>cell\<close>. (The capacity given to \<^verbatim>\<open>make\<close> is
  \<^verbatim>\<open>len(shardInfo.Cells)-1\<close>; the loop is reached only after \<open>InCellList\<close> has
  held, so the list is not empty there.)
\<close>

fun newCells_loop :: "string \<Rightarrow> string list \<Rightarrow> string list \<Rightarrow> string list" where
  "newCells_loop cell [] newCells = newCells"
| "newCells_loop cell (c # cs) newCells =
     newCells_loop cell cs (if c \<noteq> cell then newCells @ [c] else newCells)"

text \<open>\<^verbatim>\<open>removeShardCell\<close>, lines 166-176 ("now we can update the shard").\<close>

definition removeShardCell_update ::
  "'s Wrangler \<Rightarrow> string \<Rightarrow> string \<Rightarrow> string \<Rightarrow> ShardInfo \<Rightarrow> 's world
     \<Rightarrow> error option \<times> 's world" where
  "removeShardCell_update wr ks shard cell shardInfo w =
     (let w1 = logf (Infof ''Removing cell %v from shard %v/%v''
                       [ArgString cell, ArgString ks, ArgString shard]) w;
          shardInfo1 = shardInfo\<lparr>Cells := newCells_loop cell (Cells shardInfo) []\<rparr>
      in case invoke (UpdateShard_req shardInfo1) (UpdateShard (ts wr) shardInfo1) w1 of
           (err, w2) \<Rightarrow> (map_option Topo err, w2))"

text \<open>\<^verbatim>\<open>removeShardCell\<close>, lines 125-164, ending in the update above.\<close>

definition removeShardCell ::
  "'s Wrangler \<Rightarrow> string \<Rightarrow> string \<Rightarrow> string \<Rightarrow> bool \<Rightarrow> 's world \<Rightarrow> error option \<times> 's world" where
  "removeShardCell wr ks shard cell force w =
     (case invoke (GetShardCritical_req ks shard) (GetShardCritical (ts wr) ks shard) w of
        (Inl err, w1) \<Rightarrow> (Some (Topo err), w1)
      | (Inr shardInfo, w1) \<Rightarrow>
          if \<not> InCellList cell (Cells shardInfo) then (Some (CellNotPresent cell), w1)
          else if Cell (MasterAlias shardInfo) = cell
          then (Some (MasterInCell (MasterAlias shardInfo) cell), w1)
          else
            (case invoke (GetShardReplication_req cell ks shard)
                    (GetShardReplication (ts wr) cell ks shard) w1 of
               (Inr sri, w2) \<Rightarrow>
                 if length (ReplicationLinks sri) > 0
                 then (Some (ReplicationLinksPresent cell (length (ReplicationLinks sri))), w2)
                 else
                   (case invoke (DeleteShardReplication_req cell ks shard)
                           (DeleteShardReplication (ts wr) cell ks shard) w2 of
                      (Some err, w3) \<Rightarrow>
                        (Some (Errorf ''error deleting ShardReplication object in cell %v: %v''
                                 [ArgString cell, ArgError (Topo err)]), w3)
                    | (None, w3) \<Rightarrow> removeShardCell_update wr ks shard cell shardInfo w3)
             | (Inl ErrNoNode, w2) \<Rightarrow> removeShardCell_update wr ks shard cell shardInfo w2
             | (Inl err, w2) \<Rightarrow>
                 if \<not> force then (Some (Topo err), w2)
                 else
                   removeShardCell_update wr ks shard cell shardInfo
                     (logf (Warningf ''Cannot get ShardReplication from cell %v, assuming cell topo server is down, and forcing the removal''
                              [ArgString cell]) w2)))"

definition RemoveShardCell ::
  "'s deps \<Rightarrow> 's Wrangler \<Rightarrow> string \<Rightarrow> string \<Rightarrow> string \<Rightarrow> bool \<Rightarrow> 's world
     \<Rightarrow> error option \<times> 's world" where
  "RemoveShardCell d wr ks shard cell force w =
     (let actionNode = UpdateShard_actionnode
      in case lockShard d wr ks shard actionNode w of
           (Inl err, w1) \<Rightarrow> (Some (Topo err), w1)
         | (Inr lockPath, w1) \<Rightarrow>
             (case removeShardCell wr ks shard cell force w1 of
                (err, w2) \<Rightarrow>
                  (case unlockShard d wr ks shard actionNode lockPath err w2 of
                     ((r, actionNode1), w3) \<Rightarrow> (r, w3))))"

subsection \<open>Reading the history\<close>

text \<open>The calls issued, in order, without the log lines.\<close>

fun requests :: "event list \<Rightarrow> request list" where
  "requests [] = []"
| "requests (Call rq # evs) = rq # requests evs"
| "requests (e # evs) = requests evs"

text \<open>The shard records written, the action-node payloads handed to the lock, in order.\<close>

fun written :: "event list \<Rightarrow> ShardInfo list" where
  "written [] = []"
| "written (Call (UpdateShard_req si) # evs) = si # written evs"
| "written (e # evs) = written evs"

fun payloads :: "event list \<Rightarrow> string list" where
  "payloads [] = []"
| "payloads (Call (LockShardForAction_req ks shard payload timeout) # evs) = payload # payloads evs"
| "payloads (Call (UnlockShardForAction_req ks shard lockPath payload) # evs) = payload # payloads evs"
| "payloads (e # evs) = payloads evs"

text \<open>The requests that touch a derived serving-directory entry.\<close>

fun serving_request :: "event \<Rightarrow> bool" where
  "serving_request (Call (DeleteSrvTabletType_req cell ks shard t)) = True"
| "serving_request (Call (DeleteSrvShard_req cell ks shard)) = True"
| "serving_request e = False"

fun warning :: "event \<Rightarrow> bool" where
  "warning (Warningf f args) = True"
| "warning e = False"

subsection \<open>An in-memory topology server\<close>

text \<open>
  Modelled from the spec: the implementations of \<^verbatim>\<open>topo.Server\<close> are outside src/.
  This one follows the contract table of the spec (section 6) over plain maps and is the
  concrete server of the examples below; the theorems themselves hold for every server.
  A lock is keyed by (keyspace, shard) and holds the payload; it is released only against
  the handle that acquisition returned, and the payload given at release is recorded.
\<close>

record mem =
  m_shards :: "string \<times> string \<Rightarrow> ShardInfo option"
  m_replication :: "string \<times> string \<times> string \<Rightarrow> ShardReplicationInfo option"
  m_srvTypes :: "(string \<times> string \<times> string \<times> TabletType) set"
  m_srvShards :: "(string \<times> string \<times> string) set"
  m_tablets :: "string \<times> string \<Rightarrow> TabletMap"
  m_locks :: "string \<times> string \<Rightarrow> string option"
  m_recorded :: "string list"

definition mem_lockPath :: "string \<Rightarrow> string \<Rightarrow> string" where
  "mem_lockPath ks shard = ks @ ''/'' @ shard @ ''/action''"

definition mem_Server :: "mem Server" where
  "mem_Server =
     \<lparr>LockShardForAction = (\<lambda>ks shard payload timeout s.
        case m_locks s (ks, shard) of
          Some held \<Rightarrow> (Inl (TopoError ''lock timed out''), s)
        | None \<Rightarrow> (Inr (mem_lockPath ks shard),
                     s\<lparr>m_locks := (m_locks s)((ks, shard) \<mapsto> payload)\<rparr>)),
      UnlockShardForAction = (\<lambda>ks shard lockPath payload s.
        if m_locks s (ks, shard) \<noteq> None \<and> lockPath = mem_lockPath ks shard
        then (None, s\<lparr>m_locks := (m_locks s)((ks, shard) := None),
                        m_recorded := m_recorded s @ [payload]\<rparr>)
        else (Some (TopoError ''lock not held''), s)),
      GetShard = (\<lambda>ks shard s.
        case m_shards s (ks, shard) of
          None \<Rightarrow> (Inl ErrNoNode, s) | Some si \<Rightarrow> (Inr si, s)),
      GetShardCritical = (\<lambda>ks shard s.
        case m_shards s (ks, shard) of
          None \<Rightarrow> (Inl ErrNoNode, s) | Some si \<Rightarrow> (Inr si, s)),
      UpdateShard = (\<lambda>si s.
        (None, s\<lparr>m_shards := (m_shards s)((keyspace si, shardName si) \<mapsto> si)\<rparr>)),
      DeleteShard_Server = (\<lambda>ks shard s.
        case m_shards s (ks, shard) of
          None \<Rightarrow> (Some ErrNoNode, s)
        | Some si \<Rightarrow> (None, s\<lparr>m_shards := (m_shards s)((ks, shard) := None)\<rparr>)),
      GetShardReplication = (\<lambda>cell ks shard s.
        case m_replication s (cell, ks, shard) of
          None \<Rightarrow> (Inl ErrNoNode, s) | Some sri \<Rightarrow> (Inr sri, s)),
      DeleteShardReplication = (\<lambda>cell ks shard s.
        (None, s\<lparr>m_replication := (m_replication s)((cell, ks, shard) := None)\<rparr>)),
      DeleteSrvTabletType = (\<lambda>cell ks shard t s.
        if (cell, ks, shard, t) \<in> m_srvTypes s
        then (None, s\<lparr>m_srvTypes := m_srvTypes s - {(cell, ks, shard, t)}\<rparr>)
        else (Some ErrNoNode, s)),
      DeleteSrvShard = (\<lambda>cell ks shard s.
        if (cell, ks, shard) \<in> m_srvShards s
        then (None, s\<lparr>m_srvShards := m_srvShards s - {(cell, ks, shard)}\<rparr>)
        else (Some ErrNoNode, s))\<rparr>"

definition mem_Wrangler :: "mem Wrangler" where
  "mem_Wrangler = \<lparr>ts = mem_Server, lockTimeout = 30\<rparr>"

text \<open>
  The parameters of the examples: an action node is serialised as its state and error
  text, the text of an error is its message or its format string, the tablet map is read
  off the store, and three of five tablet types are in the serving graph.
\<close>

definition mem_deps :: "mem deps" where
  "mem_deps =
     \<lparr>ToJson = (\<lambda>n. (case State n of
                        ACTION_STATE_QUEUED \<Rightarrow> ''queued:''
                      | ACTION_STATE_FAILED \<Rightarrow> ''failed:''
                      | ACTION_STATE_DONE \<Rightarrow> ''done:'') @ Error n),
      ErrorString = (\<lambda>e. case e of
                        Topo ErrNoNode \<Rightarrow> ''node does not exist''
                      | Topo (TopoError m) \<Rightarrow> m
                      | Errorf f args \<Rightarrow> f),
      AllTabletTypes = [''idle'', ''master'', ''replica'', ''rdonly'', ''spare''],
      IsInServingGraph = (\<lambda>t. t \<in> {''master'', ''replica'', ''rdonly''}),
      GetTabletMapForShard = (\<lambda>srv ks shard s. (Inr (m_tablets s (ks, shard)), s))\<rparr>"

text \<open>
  The shard of the examples, \<^verbatim>\<open>test_keyspace/0\<close>, with three cells and its master in cell a;
  cell b holds an empty replication record and one serving entry.
\<close>

definition shard_abc :: ShardInfo where
  "shard_abc =
     \<lparr>keyspace = ''test_keyspace'', shardName = ''0'',
      MasterAlias = \<lparr>Cell = ''a'', Uid = 1\<rparr>,
      ServedTypes = [''master'', ''replica''],
      Cells = [''a'', ''b'', ''c'']\<rparr>"

definition mem_abc :: mem where
  "mem_abc =
     \<lparr>m_shards = [(''test_keyspace'', ''0'') \<mapsto> shard_abc],
      m_replication = [(''b'', ''test_keyspace'', ''0'') \<mapsto> \<lparr>ReplicationLinks = []\<rparr>],
      m_srvTypes = {(''b'', ''test_keyspace'', ''0'', ''replica'')},
      m_srvShards = {},
      m_tablets = (\<lambda>k. []),
      m_locks = Map.empty,
      m_recorded = []\<rparr>"

definition world_abc :: "mem world" where
  "world_abc = \<lparr>store = mem_abc, events = []\<rparr>"

text \<open>
  Three more worlds for the examples: the same shard with the master's cell a missing from
  \<^verbatim>\<open>Cells\<close>; the same shard with one tablet left in it; and a wrangler whose server
  cannot reach the replication record of any cell.
\<close>

definition world_bc :: "mem world" where
  "world_bc =
     \<lparr>store = mem_abc\<lparr>m_shards :=
                [(''test_keyspace'', ''0'') \<mapsto> shard_abc\<lparr>Cells := [''b'', ''c'']\<rparr>]\<rparr>,
      events = []\<rparr>"

definition world_tablet :: "mem world" where
  "world_tablet =
     \<lparr>store = mem_abc\<lparr>m_tablets := (\<lambda>k. [\<lparr>Cell = ''a'', Uid = 1\<rparr>])\<rparr>,
      events = []\<rparr>"

definition unreachable_Wrangler :: "mem Wrangler" where
  "unreachable_Wrangler =
     mem_Wrangler\<lparr>ts := mem_Server\<lparr>GetShardReplication :=
       (\<lambda>cell ks shard s. (Inl (TopoError ''cell unreachable''), s))\<rparr>\<rparr>"

text \<open>A wrangler whose server fails every unlock call.\<close>

definition stuck_Wrangler :: "mem Wrangler" where
  "stuck_Wrangler =
     mem_Wrangler\<lparr>ts := mem_Server\<lparr>UnlockShardForAction :=
       (\<lambda>ks shard lockPath payload s. (Some (TopoError ''unlock failed''), s))\<rparr>\<rparr>"

text \<open>
  A wrangler whose server cannot reach the replication record of any cell and refuses
  every write of a shard record.
\<close>

definition refusing_Wrangler :: "mem Wrangler" where
  "refusing_Wrangler =
     mem_Wrangler\<lparr>ts := mem_Server\<lparr>
       GetShardReplication :=
         (\<lambda>cell ks shard s. (Inl (TopoError ''cell unreachable''), s)),
       UpdateShard := (\<lambda>si s. (Some (TopoError ''write refused''), s))\<rparr>\<rparr>"

text \<open>
  A wrangler whose server reports \<^verbatim>\<open>topo.ErrNoNode\<close> when asked to delete a
  replication record that does not exist, as it does for the serving entries.
\<close>

definition strict_Wrangler :: "mem Wrangler" where
  "strict_Wrangler =
     mem_Wrangler\<lparr>ts := mem_Server\<lparr>DeleteShardReplication :=
       (\<lambda>cell ks shard s.
          case m_replication s (cell, ks, shard) of
            None \<Rightarrow> (Some ErrNoNode, s)
          | Some sri \<Rightarrow>
              (None, s\<lparr>m_replication := (m_replication s)((cell, ks, shard) := None)\<rparr>))\<rparr>\<rparr>"

section \<open>The session of a shard on the wire (go/vt/vtgate/proto/vtgate_proto.go)\<close>

text \<open>\<^verbatim>\<open>type ShardSession struct\<close>; \<^verbatim>\<open>int64\<close> is a 64-bit word.\<close>

record ShardSession =
  Keyspace :: string
  Shard :: string
  TabletType :: TabletType
  TransactionId :: "64 word"

text \<open>
  \<^verbatim>\<open>MarshalBson\<close> and \<^verbatim>\<open>UnmarshalBson\<close> are sequences of calls into packages bson
  and bytes2, which are outside src/; the spec leaves the wire format out of scope. The
  primitives they call are parameters of the model. The writer
  (\<^verbatim>\<open>*bytes2.ChunkedWriter\<close>) is the bytes written so far, the reader
  (\<^verbatim>\<open>*bytes.Buffer\<close>) the bytes not yet read; a Go string is its bytes. A decoding
  primitive that panics returns \<open>None\<close>; \<^verbatim>\<open>VerifyObject\<close> returns whether it
  returns normally.
\<close>

record 'lw bson =
  Object :: char
  EOO :: char
  EncodeOptionalPrefix :: "string \<Rightarrow> char \<Rightarrow> string \<Rightarrow> string"
  NewLenWriter :: "string \<Rightarrow> 'lw \<times> string"
  RecordLen :: "'lw \<Rightarrow> string \<Rightarrow> string"
  EncodeString :: "string \<Rightarrow> string \<Rightarrow> string \<Rightarrow> string"
  EncodeInt64 :: "string \<Rightarrow> string \<Rightarrow> 64 word \<Rightarrow> string"
  WriteByte :: "string \<Rightarrow> char \<Rightarrow> string"
  VerifyObject :: "char \<Rightarrow> bool"
  Next :: "string \<Rightarrow> nat \<Rightarrow> string option"
  NextByte :: "string \<Rightarrow> (char \<times> string) option"
  ReadCString :: "string \<Rightarrow> (string \<times> string) option"
  DecodeString :: "string \<Rightarrow> char \<Rightarrow> (string \<times> string) option"
  DecodeInt64 :: "string \<Rightarrow> char \<Rightarrow> (64 word \<times> string) option"
  Skip :: "string \<Rightarrow> char \<Rightarrow> string option"

text \<open>\<^verbatim>\<open>func (shardSession *ShardSession) MarshalBson\<close>, lines 61-73.\<close>

definition MarshalBson_ShardSession :: "'lw bson \<Rightarrow> ShardSession \<Rightarrow> string \<Rightarrow> string \<Rightarrow> string" where
  "MarshalBson_ShardSession b shardSession buf key =
     (let buf1 = EncodeOptionalPrefix b buf (Object b) key;
          (lenWriter, buf2) = NewLenWriter b buf1;
          buf3 = EncodeString b buf2 ''Keyspace'' (Keyspace shardSession);
          buf4 = EncodeString b buf3 ''Shard'' (Shard shardSession);
          buf5 = EncodeString b buf4 ''TabletType'' (TabletType shardSession);
          buf6 = EncodeInt64 b buf5 ''TransactionId'' (TransactionId shardSession);
          buf7 = WriteByte b buf6 (CHR 0x00)
      in RecordLen b lenWriter buf7)"

text \<open>
  \<^verbatim>\<open>func (shardSession *ShardSession) UnmarshalBson\<close>, lines 121-143: first the loop
  of lines 127-142, which fills the fields of the receiver. Nothing in the source bounds
  the loop, so it is a partial function: \<open>None\<close> is a panic of a primitive or a
  loop that does not return.
\<close>

partial_function (option) UnmarshalBson_loop ::
  "'lw bson \<Rightarrow> ShardSession \<Rightarrow> string \<Rightarrow> char \<Rightarrow> (ShardSession \<times> string) option" where
  "UnmarshalBson_loop b shardSession buf kind =
     (if kind = EOO b then Some (shardSession, buf)
      else do {
        (keyName, buf1) \<leftarrow> ReadCString b buf;
        (shardSession1, buf2) \<leftarrow>
          (if keyName = ''Keyspace'' then do {
             (v, buf2) \<leftarrow> DecodeString b buf1 kind;
             Some (shardSession\<lparr>Keyspace := v\<rparr>, buf2) }
           else if keyName = ''Shard'' then do {
             (v, buf2) \<leftarrow> DecodeString b buf1 kind;
             Some (shardSession\<lparr>Shard := v\<rparr>, buf2) }
           else if keyName = ''TabletType'' then do {
             (v, buf2) \<leftarrow> DecodeString b buf1 kind;
             Some (shardSession\<lparr>TabletType := v\<rparr>, buf2) }
           else if keyName = ''TransactionId'' then do {
             (v, buf2) \<leftarrow> DecodeInt64 b buf1 kind;
             Some (shardSession\<lparr>TransactionId := v\<rparr>, buf2) }
           else do {
             buf2 \<leftarrow> Skip b buf1 kind;
             Some (shardSession, buf2) });
        (kind1, buf3) \<leftarrow> NextByte b buf2;
        UnmarshalBson_loop b shardSession1 buf3 kind1 })"

definition UnmarshalBson_ShardSession ::
  "'lw bson \<Rightarrow> ShardSession \<Rightarrow> string \<Rightarrow> char \<Rightarrow> (ShardSession \<times> string) option" where
  "UnmarshalBson_ShardSession b shardSession buf kind =
     (if \<not> VerifyObject b kind then None
      else do {
        buf1 \<leftarrow> Next b buf 4;
        (kind1, buf2) \<leftarrow> NextByte b buf1;
        UnmarshalBson_loop b shardSession buf2 kind1 })"

text \<open>
  What the round trip needs of the primitives: writers append to the buffer; the length
  writer keeps a slot of four bytes in front of what is written after it, and
  \<^verbatim>\<open>Next\<close> skips such a slot; an element written by \<^verbatim>\<open>EncodeString\<close> or
  \<^verbatim>\<open>EncodeInt64\<close> under a key without a zero byte is read back by
  \<^verbatim>\<open>NextByte\<close>, \<^verbatim>\<open>ReadCString\<close> and the matching decoder as a kind other than
  \<^verbatim>\<open>EOO\<close>, that key and that value; the final zero byte is read back as the kind
  \<^verbatim>\<open>EOO\<close>; without a key no prefix is written; \<^verbatim>\<open>VerifyObject\<close> accepts
  \<^verbatim>\<open>Object\<close>.
\<close>

definition bson_contract :: "'lw bson \<Rightarrow> bool" where
  "bson_contract b \<longleftrightarrow>
     VerifyObject b (Object b)
   \<and> (\<forall>buf etype. EncodeOptionalPrefix b buf etype [] = buf)
   \<and> (\<forall>buf key val. EncodeString b buf key val = buf @ EncodeString b [] key val)
   \<and> (\<forall>buf key val. EncodeInt64 b buf key val = buf @ EncodeInt64 b [] key val)
   \<and> (\<forall>buf c. WriteByte b buf c = buf @ WriteByte b [] c)
   \<and> (\<forall>buf body. \<exists>slot. length slot = 4
          \<and> RecordLen b (fst (NewLenWriter b buf)) (snd (NewLenWriter b buf) @ body)
              = buf @ slot @ body)
   \<and> (\<forall>slot rest. length slot = 4 \<longrightarrow> Next b (slot @ rest) 4 = Some rest)
   \<and> (\<forall>key val rest. CHR 0x00 \<notin> set key \<longrightarrow>
          (\<exists>kind buf1 buf2.
              NextByte b (EncodeString b [] key val @ rest) = Some (kind, buf1)
            \<and> kind \<noteq> EOO b
            \<and> ReadCString b buf1 = Some (key, buf2)
            \<and> DecodeString b buf2 kind = Some (val, rest)))
   \<and> (\<forall>key val rest. CHR 0x00 \<notin> set key \<longrightarrow>
          (\<exists>kind buf1 buf2.
              NextByte b (EncodeInt64 b [] key val @ rest) = Some (kind, buf1)
            \<and> kind \<noteq> EOO b
            \<and> ReadCString b buf1 = Some (key, buf2)
            \<and> DecodeInt64 b buf2 kind = Some (val, rest)))
   \<and> (\<forall>rest. NextByte b (WriteByte b [] (CHR 0x00) @ rest) = Some (EOO b, rest))"

text \<open>
  A codec that meets the contract, for the examples: an element is its kind, its key
  closed by a zero byte, and its value; a string value is written byte by byte, each
  behind a byte 1, and closed by a byte 0; a 64-bit value is written bit by bit, lowest
  first.
\<close>

fun chunks :: "string \<Rightarrow> string" where
  "chunks [] = [CHR 0x00]"
| "chunks (c # cs) = CHR 0x01 # c # chunks cs"

fun unchunks :: "string \<Rightarrow> (string \<times> string) option" where
  "unchunks [] = None"
| "unchunks [t] = (if t = CHR 0x00 then Some ([], []) else None)"
| "unchunks (t # c # rest) =
     (if t = CHR 0x00 then Some ([], c # rest)
      else map_option (\<lambda>(v, r). (c # v, r)) (unchunks rest))"

definition le32 :: "nat \<Rightarrow> string" where
  "le32 n = [char_of n, char_of (n div 256), char_of (n div 65536), char_of (n div 16777216)]"

definition plain_bson :: "nat bson" where
  "plain_bson =
     \<lparr>Object = CHR 0x03,
      EOO = CHR 0x00,
      EncodeOptionalPrefix = (\<lambda>buf etype key.
        if key = [] then buf else buf @ [etype] @ key @ [CHR 0x00]),
      NewLenWriter = (\<lambda>buf. (length buf, buf @ replicate 4 (CHR 0x00))),
      RecordLen = (\<lambda>off buf. take off buf @ le32 (length buf - off) @ drop (off + 4) buf),
      EncodeString = (\<lambda>buf key val. buf @ [CHR 0x05] @ key @ [CHR 0x00] @ chunks val),
      EncodeInt64 = (\<lambda>buf key val.
        buf @ [CHR 0x12] @ key @ [CHR 0x00]
            @ map (\<lambda>i. if bit val i then CHR 0x01 else CHR 0x00) [0..<64]),
      WriteByte = (\<lambda>buf c. buf @ [c]),
      VerifyObject = (\<lambda>kind. kind = CHR 0x03),
      Next = (\<lambda>buf n. if n \<le> length buf then Some (drop n buf) else None),
      NextByte = (\<lambda>buf. case buf of [] \<Rightarrow> None | c # rest \<Rightarrow> Some (c, rest)),
      ReadCString = (\<lambda>buf.
        if CHR 0x00 \<in> set buf
        then Some (takeWhile (\<lambda>c. c \<noteq> CHR 0x00) buf, tl (dropWhile (\<lambda>c. c \<noteq> CHR 0x00) buf))
        else None),
      DecodeString = (\<lambda>buf kind. if kind = CHR 0x05 then unchunks buf else None),
      DecodeInt64 = (\<lambda>buf kind.
        if kind = CHR 0x12 \<and> 64 \<le> length buf
        then Some (horner_sum of_bool 2 (map (\<lambda>c. c = CHR 0x01) (take 64 buf)), drop 64 buf)
        else None),
      Skip = (\<lambda>buf kind.
        if kind = CHR 0x05 then map_option snd (unchunks buf)
        else if kind = CHR 0x12 \<and> 64 \<le> length buf then Some (drop 64 buf)
        else None)\<rparr>"

section \<open>Properties\<close>

subsection \<open>The history is only extended\<close>

lemma newCells_loop_append:
  "newCells_loop cell cs acc = acc @ filter (\<lambda>c. c \<noteq> cell) cs"
  by (induction cs arbitrary: acc) auto

lemma written_append: "written (xs @ ys) = written xs @ written ys"
  by (induction xs rule: written.induct) auto

lemma payloads_append: "payloads (xs @ ys) = payloads xs @ payloads ys"
  by (induction xs rule: payloads.induct) auto

lemma requests_append: "requests (xs @ ys) = requests xs @ requests ys"
  by (induction xs rule: requests.induct) auto

lemma pair_collapse_fst: "fst p = a \<Longrightarrow> p = (a, snd p)"
  by (cases p) simp

lemma lockShard_events:
  "lockShard d wr ks shard n w = (r, w1) \<Longrightarrow>
   events w1 = events w @
     [Infof ''Locking shard %v/%v for action %v''
        [ArgString ks, ArgString shard, ArgAction (Action n)],
      Call (LockShardForAction_req ks shard (ToJson d n) (lockTimeout wr))]"
  by (auto simp: lockShard_def invoke_def logf_def split: prod.splits)

lemma unlockShard_written:
  "written (events (snd (unlockShard d wr ks shard n lp err w))) = written (events w)"
  by (auto simp: unlockShard_def invoke_def logf_def written_append
           split: option.splits prod.splits)

lemma unlockShard_Some: "fst (fst (unlockShard d wr ks shard n lp (Some e) w)) = Some e"
  by (auto simp: unlockShard_def invoke_def logf_def split: option.splits prod.splits)

text \<open>Once the lock is held, the two locking operations are body, then release.\<close>

lemma RemoveShardCell_locked:
  assumes "lockShard d wr ks shard UpdateShard_actionnode w = (Inr lp, w1)"
      and "removeShardCell wr ks shard cell force w1 = (err, w2)"
  shows "RemoveShardCell d wr ks shard cell force w =
           (fst (fst (unlockShard d wr ks shard UpdateShard_actionnode lp err w2)),
            snd (unlockShard d wr ks shard UpdateShard_actionnode lp err w2))"
  using assms by (simp add: RemoveShardCell_def split: prod.splits)

lemma SetShardServedTypes_locked:
  assumes "lockShard d wr ks shard (SetShardServedTypes_actionnode st) w = (Inr lp, w1)"
      and "setShardServedTypes wr ks shard st w1 = (err, w2)"
  shows "SetShardServedTypes d wr ks shard st w =
           (fst (fst (unlockShard d wr ks shard (SetShardServedTypes_actionnode st) lp err w2)),
            snd (unlockShard d wr ks shard (SetShardServedTypes_actionnode st) lp err w2))"
  using assms by (simp add: SetShardServedTypes_def split: prod.splits)

text \<open>Evaluating the in-memory server and the parameters of the examples.\<close>

lemmas mem_simps =
  mem_Wrangler_def mem_Server_def mem_deps_def mem_lockPath_def
  world_abc_def mem_abc_def shard_abc_def

lemmas wrangler_simps =
  lockShard_def unlockShard_def setShardServedTypes_def SetShardServedTypes_def
  DeleteShard_def removeShardCell_update_def removeShardCell_def RemoveShardCell_def
  invoke_def logf_def InCellList_def Let_def
  SetShardServedTypes_actionnode_def UpdateShard_actionnode_def

subsection \<open>RemoveShardCell and the master's cell\<close>

lemma removeShardCell_master:
  assumes "GetShardCritical (ts wr) ks shard (store w) = (Inr si, s2)"
      and "Cell (MasterAlias si) = cell"
  shows "removeShardCell wr ks shard cell force w =
           (Some (if cell \<in> set (Cells si) then MasterInCell (MasterAlias si) cell
                  else CellNotPresent cell),
            \<lparr>store = s2, events = events w @ [Call (GetShardCritical_req ks shard)]\<rparr>)"
  using assms by (simp add: removeShardCell_def invoke_def InCellList_def)

text \<open>
  C1, as stated: for every shard state, RemoveShardCell with the cell of the master fails
  with a MasterInCell error. It does not for a shard whose \<^verbatim>\<open>Cells\<close> does not list
  the master's cell: the presence check of lines 131-134 comes first and the error is
  CellNotPresent.
\<close>

theorem RemoveShardCell_master_unlisted_counterexample:
  "Cell (MasterAlias (shard_abc\<lparr>Cells := [''b'', ''c'']\<rparr>)) = ''a''
   \<and> GetShardCritical (ts mem_Wrangler) ''test_keyspace'' ''0'' (store world_bc)
       = (Inr (shard_abc\<lparr>Cells := [''b'', ''c'']\<rparr>), store world_bc)
   \<and> fst (RemoveShardCell mem_deps mem_Wrangler ''test_keyspace'' ''0'' ''a'' False world_bc)
       = Some (CellNotPresent ''a'')
   \<and> CellNotPresent ''a'' \<noteq> MasterInCell \<lparr>Cell = ''a'', Uid = 1\<rparr> ''a''"
  by (simp add: wrangler_simps mem_simps world_bc_def CellNotPresent_def MasterInCell_def)

text \<open>
  C1, amended: once the lock is held and the shard record read, RemoveShardCell with
  \<open>cell\<close> equal to \<^verbatim>\<open>MasterAlias.Cell\<close> fails whatever the force flag and writes no
  shard record: with a MasterInCell error when the cell is listed in \<^verbatim>\<open>Cells\<close>, with
  CellNotPresent when it is not.
\<close>

theorem RemoveShardCell_master_cell:
  assumes "lockShard d wr ks shard UpdateShard_actionnode w = (Inr lockPath, w1)"
      and "GetShardCritical (ts wr) ks shard (store w1) = (Inr si, s2)"
      and "Cell (MasterAlias si) = cell"
  shows "fst (RemoveShardCell d wr ks shard cell force w) =
           Some (if cell \<in> set (Cells si) then MasterInCell (MasterAlias si) cell
                 else CellNotPresent cell)
       \<and> written (events (snd (RemoveShardCell d wr ks shard cell force w))) = written (events w)"
proof -
  let ?e = "if cell \<in> set (Cells si) then MasterInCell (MasterAlias si) cell
            else CellNotPresent cell"
  let ?w2 = "\<lparr>store = s2, events = events w1 @ [Call (GetShardCritical_req ks shard)]\<rparr>"
  have body: "removeShardCell wr ks shard cell force w1 = (Some ?e, ?w2)"
    using assms(2,3) by (rule removeShardCell_master)
  have whole: "RemoveShardCell d wr ks shard cell force w =
      (fst (fst (unlockShard d wr ks shard UpdateShard_actionnode lockPath (Some ?e) ?w2)),
       snd (unlockShard d wr ks shard UpdateShard_actionnode lockPath (Some ?e) ?w2))"
    using assms(1) body by (rule RemoveShardCell_locked)
  have "written (events w1) = written (events w)"
    using lockShard_events [OF assms(1)] by (simp add: written_append)
  then show ?thesis
    by (simp add: whole unlockShard_Some unlockShard_written written_append)
qed

theorem RemoveShardCell_master_cell_witness:
  "fst (RemoveShardCell mem_deps mem_Wrangler ''test_keyspace'' ''0'' ''a'' True world_abc)
     = Some (MasterInCell \<lparr>Cell = ''a'', Uid = 1\<rparr> ''a'')
   \<and> written (events (snd (RemoveShardCell mem_deps mem_Wrangler ''test_keyspace'' ''0'' ''a''
        True world_abc))) = []"
proof -
  let ?w1 = "\<lparr>store = mem_abc\<lparr>m_locks := [(''test_keyspace'', ''0'') \<mapsto> ''queued:'']\<rparr>,
              events = [Infof ''Locking shard %v/%v for action %v''
                          [ArgString ''test_keyspace'', ArgString ''0'',
                           ArgAction SHARD_ACTION_UPDATE_SHARD],
                        Call (LockShardForAction_req ''test_keyspace'' ''0'' ''queued:'' 30)]\<rparr>"
  have lock: "lockShard mem_deps mem_Wrangler ''test_keyspace'' ''0'' UpdateShard_actionnode
                world_abc = (Inr ''test_keyspace/0/action'', ?w1)"
    by (simp add: wrangler_simps mem_simps)
  have read: "GetShardCritical (ts mem_Wrangler) ''test_keyspace'' ''0'' (store ?w1)
                = (Inr shard_abc, store ?w1)"
    by (simp add: mem_simps)
  have master: "Cell (MasterAlias shard_abc) = ''a''"
    by (simp add: shard_abc_def)
  show ?thesis
    using RemoveShardCell_master_cell [OF lock read master, of True]
    by (simp add: shard_abc_def world_abc_def)
qed

subsection \<open>The release step\<close>

text \<open>
  C4: for every non-nil \<^verbatim>\<open>actionError\<close> the release step returns exactly that error,
  whatever the store's unlock call returns; a failure of the unlock call only adds a
  warning to the log.
\<close>

theorem unlockShard_returns_actionError:
  assumes "UnlockShardForAction (ts wr) ks shard lockPath
             (ToJson d (actionNode\<lparr>Error := ErrorString d e, State := ACTION_STATE_FAILED\<rparr>))
             (store w) = (uerr, s')"
  shows "unlockShard d wr ks shard actionNode lockPath (Some e) w =
           ((Some e, actionNode\<lparr>Error := ErrorString d e, State := ACTION_STATE_FAILED\<rparr>),
            \<lparr>store = s',
             events = events w @
               [Infof ''Unlocking shard %v/%v for action %v with error %v''
                  [ArgString ks, ArgString shard, ArgAction (Action actionNode), ArgError e],
                Call (UnlockShardForAction_req ks shard lockPath
                  (ToJson d (actionNode\<lparr>Error := ErrorString d e,
                                         State := ACTION_STATE_FAILED\<rparr>)))] @
               (case uerr of
                  None \<Rightarrow> []
                | Some ue \<Rightarrow>
                    [Warningf ''UnlockShardForAction failed: %v'' [ArgError (Topo ue)]])\<rparr>)"
  using assms by (simp add: unlockShard_def invoke_def logf_def split: option.splits)

theorem unlockShard_returns_actionError_witness:
  "fst (unlockShard mem_deps mem_Wrangler ''test_keyspace'' ''0'' UpdateShard_actionnode
          ''stale'' (Some (CellNotPresent ''z'')) world_abc)
     = (Some (CellNotPresent ''z''),
        UpdateShard_actionnode\<lparr>Error := ''cell %v in not in shard info'',
                               State := ACTION_STATE_FAILED\<rparr>)
   \<and> filter warning (events (snd (unlockShard mem_deps mem_Wrangler ''test_keyspace'' ''0''
          UpdateShard_actionnode ''stale'' (Some (CellNotPresent ''z'')) world_abc)))
     = [Warningf ''UnlockShardForAction failed: %v''
          [ArgError (Topo (TopoError ''lock not held''))]]"
  using unlockShard_returns_actionError
      [where wr = mem_Wrangler and ks = "''test_keyspace''" and shard = "''0''"
         and lockPath = "''stale''" and d = mem_deps and actionNode = UpdateShard_actionnode
         and e = "CellNotPresent ''z''" and w = world_abc
         and uerr = "Some (TopoError ''lock not held'')" and s' = mem_abc]
  by (simp add: mem_simps UpdateShard_actionnode_def CellNotPresent_def)

lemma unlockShard_node:
  "snd (fst (unlockShard d wr ks shard n lp err w)) =
     n\<lparr>Error := (case err of None \<Rightarrow> [] | Some e \<Rightarrow> ErrorString d e),
       State := (case err of None \<Rightarrow> ACTION_STATE_DONE | Some e \<Rightarrow> ACTION_STATE_FAILED)\<rparr>"
  by (auto simp: unlockShard_def invoke_def logf_def split: option.splits prod.splits)

lemma unlockShard_payloads:
  "payloads (events (snd (unlockShard d wr ks shard n lp err w))) =
     payloads (events w) @
       [ToJson d (n\<lparr>Error := (case err of None \<Rightarrow> [] | Some e \<Rightarrow> ErrorString d e),
                    State := (case err of None \<Rightarrow> ACTION_STATE_DONE
                              | Some e \<Rightarrow> ACTION_STATE_FAILED)\<rparr>)]"
  by (auto simp: unlockShard_def invoke_def logf_def payloads_append
           split: option.splits prod.splits)

lemma unlockShard_None:
  assumes "UnlockShardForAction (ts wr) ks shard lp
             (ToJson d (n\<lparr>Error := [], State := ACTION_STATE_DONE\<rparr>)) (store w) = (uerr, s')"
  shows "unlockShard d wr ks shard n lp None w =
           ((map_option Topo uerr, n\<lparr>Error := [], State := ACTION_STATE_DONE\<rparr>),
            \<lparr>store = s',
             events = events w @
               [Infof ''Unlocking shard %v/%v for successful action %v''
                  [ArgString ks, ArgString shard, ArgAction (Action n)],
                Call (UnlockShardForAction_req ks shard lp
                  (ToJson d (n\<lparr>Error := [], State := ACTION_STATE_DONE\<rparr>)))]\<rparr>)"
  using assms by (simp add: unlockShard_def invoke_def logf_def)

lemma unlockShard_None_fst:
  "fst (fst (unlockShard d wr ks shard n lp None w)) =
     map_option Topo
       (fst (UnlockShardForAction (ts wr) ks shard lp
               (ToJson d (n\<lparr>Error := [], State := ACTION_STATE_DONE\<rparr>)) (store w)))"
  by (auto simp: unlockShard_def invoke_def logf_def split: prod.splits)

lemma unlockShard_requests:
  "requests (events (snd (unlockShard d wr ks shard n lp err w))) =
     requests (events w) @
       [UnlockShardForAction_req ks shard lp
          (ToJson d (n\<lparr>Error := (case err of None \<Rightarrow> [] | Some e \<Rightarrow> ErrorString d e),
                       State := (case err of None \<Rightarrow> ACTION_STATE_DONE
                                 | Some e \<Rightarrow> ACTION_STATE_FAILED)\<rparr>))]"
  by (auto simp: unlockShard_def invoke_def logf_def requests_append
           split: option.splits prod.splits)

lemma setShardServedTypes_payloads:
  "payloads (events (snd (setShardServedTypes wr ks shard st w))) = payloads (events w)"
  by (auto simp: setShardServedTypes_def invoke_def payloads_append Let_def
           split: prod.splits sum.splits)

lemma removeShardCell_update_payloads:
  "payloads (events (snd (removeShardCell_update wr ks shard cell si w))) = payloads (events w)"
  by (auto simp: removeShardCell_update_def invoke_def logf_def payloads_append Let_def
           split: prod.splits)

lemma removeShardCell_payloads:
  "payloads (events (snd (removeShardCell wr ks shard cell force w))) = payloads (events w)"
  by (auto simp: removeShardCell_def invoke_def logf_def payloads_append
                 removeShardCell_update_payloads
           split: prod.splits sum.splits option.splits topo_error.splits)

text \<open>
  C5, as stated: when the guarded body succeeds and the store's unlock call fails, the
  operation still returns nil. It does not: lines 34-41 return the unlock error when
  \<^verbatim>\<open>actionError\<close> is nil. Here the lock is taken, the body of SetShardServedTypes
  succeeds, the unlock call fails, and the operation returns the unlock error.
\<close>

theorem unlock_failure_after_success_counterexample:
  "fst (lockShard mem_deps stuck_Wrangler ''test_keyspace'' ''0''
          (SetShardServedTypes_actionnode [''rdonly'']) world_abc)
     = Inr ''test_keyspace/0/action''
   \<and> fst (setShardServedTypes stuck_Wrangler ''test_keyspace'' ''0'' [''rdonly'']
            (snd (lockShard mem_deps stuck_Wrangler ''test_keyspace'' ''0''
                    (SetShardServedTypes_actionnode [''rdonly'']) world_abc)))
     = None
   \<and> fst (SetShardServedTypes mem_deps stuck_Wrangler ''test_keyspace'' ''0'' [''rdonly'']
            world_abc)
     = Some (Topo (TopoError ''unlock failed''))"
  by (simp add: wrangler_simps mem_simps stuck_Wrangler_def)

text \<open>
  C5, amended: when the guarded body succeeds, the release step and with it the operation
  return what the store's unlock call returns; an unlock failure becomes the returned
  error. The action node is set to Done and nothing is logged about the failure.
\<close>

theorem unlock_error_returned_after_success:
  "(UnlockShardForAction (ts wr) ks shard lp
      (ToJson d (n\<lparr>Error := [], State := ACTION_STATE_DONE\<rparr>)) (store wb) = (uerr, su) \<longrightarrow>
    unlockShard d wr ks shard n lp None wb =
      ((map_option Topo uerr, n\<lparr>Error := [], State := ACTION_STATE_DONE\<rparr>),
       \<lparr>store = su,
        events = events wb @
          [Infof ''Unlocking shard %v/%v for successful action %v''
             [ArgString ks, ArgString shard, ArgAction (Action n)],
           Call (UnlockShardForAction_req ks shard lp
             (ToJson d (n\<lparr>Error := [], State := ACTION_STATE_DONE\<rparr>)))]\<rparr>))
   \<and> (lockShard d wr ks shard (SetShardServedTypes_actionnode st) w = (Inr lp, wl) \<longrightarrow>
      setShardServedTypes wr ks shard st wl = (None, wb) \<longrightarrow>
      UnlockShardForAction (ts wr) ks shard lp
        (ToJson d ((SetShardServedTypes_actionnode st)\<lparr>Error := [], State := ACTION_STATE_DONE\<rparr>))
        (store wb) = (Some ue, su) \<longrightarrow>
      fst (SetShardServedTypes d wr ks shard st w) = Some (Topo ue))
   \<and> (lockShard d wr ks shard UpdateShard_actionnode w = (Inr lp, wl) \<longrightarrow>
      removeShardCell wr ks shard cell force wl = (None, wb) \<longrightarrow>
      UnlockShardForAction (ts wr) ks shard lp
        (ToJson d (UpdateShard_actionnode\<lparr>Error := [], State := ACTION_STATE_DONE\<rparr>))
        (store wb) = (Some ue, su) \<longrightarrow>
      fst (RemoveShardCell d wr ks shard cell force w) = Some (Topo ue))"
  by (simp add: unlockShard_None SetShardServedTypes_locked RemoveShardCell_locked)

theorem unlock_error_returned_after_success_witness:
  "fst (SetShardServedTypes mem_deps stuck_Wrangler ''test_keyspace'' ''0'' [''rdonly'']
          world_abc) = Some (Topo (TopoError ''unlock failed''))
   \<and> fst (RemoveShardCell mem_deps stuck_Wrangler ''test_keyspace'' ''0'' ''b'' False
            world_abc) = Some (Topo (TopoError ''unlock failed''))
   \<and> fst (fst (unlockShard mem_deps mem_Wrangler ''test_keyspace'' ''0''
                 UpdateShard_actionnode ''stale'' None world_abc))
       = Some (Topo (TopoError ''lock not held''))"
proof -
  let ?lp = "''test_keyspace/0/action''"
  let ?n1 = "SetShardServedTypes_actionnode [''rdonly'']"
  let ?l1 = "lockShard mem_deps stuck_Wrangler ''test_keyspace'' ''0'' ?n1 world_abc"
  let ?b1 = "setShardServedTypes stuck_Wrangler ''test_keyspace'' ''0'' [''rdonly''] (snd ?l1)"
  let ?l2 = "lockShard mem_deps stuck_Wrangler ''test_keyspace'' ''0'' UpdateShard_actionnode
               world_abc"
  let ?b2 = "removeShardCell stuck_Wrangler ''test_keyspace'' ''0'' ''b'' False (snd ?l2)"
  have l1: "?l1 = (Inr ?lp, snd ?l1)"
    by (rule pair_collapse_fst) (simp add: wrangler_simps mem_simps stuck_Wrangler_def)
  have b1: "?b1 = (None, snd ?b1)"
    by (rule pair_collapse_fst) (simp add: wrangler_simps mem_simps stuck_Wrangler_def)
  have u1: "UnlockShardForAction (ts stuck_Wrangler) ''test_keyspace'' ''0'' ?lp
              (ToJson mem_deps (?n1\<lparr>Error := [], State := ACTION_STATE_DONE\<rparr>)) (store (snd ?b1))
            = (Some (TopoError ''unlock failed''), store (snd ?b1))"
    by (simp add: mem_Wrangler_def mem_Server_def stuck_Wrangler_def)
  have l2: "?l2 = (Inr ?lp, snd ?l2)"
    by (rule pair_collapse_fst) (simp add: wrangler_simps mem_simps stuck_Wrangler_def)
  have b2: "?b2 = (None, snd ?b2)"
    by (rule pair_collapse_fst) (simp add: wrangler_simps mem_simps stuck_Wrangler_def)
  have u2: "UnlockShardForAction (ts stuck_Wrangler) ''test_keyspace'' ''0'' ?lp
              (ToJson mem_deps (UpdateShard_actionnode\<lparr>Error := [], State := ACTION_STATE_DONE\<rparr>))
              (store (snd ?b2)) = (Some (TopoError ''unlock failed''), store (snd ?b2))"
    by (simp add: mem_Wrangler_def mem_Server_def stuck_Wrangler_def)
  have u3: "UnlockShardForAction (ts mem_Wrangler) ''test_keyspace'' ''0'' ''stale''
              (ToJson mem_deps (UpdateShard_actionnode\<lparr>Error := [], State := ACTION_STATE_DONE\<rparr>))
              (store world_abc) = (Some (TopoError ''lock not held''), mem_abc)"
    by (simp add: mem_simps)
  note amended = unlock_error_returned_after_success
  from amended [where wr = stuck_Wrangler and d = mem_deps and st = "[''rdonly'']"
               and w = world_abc and ue = "TopoError ''unlock failed''"]
       l1 b1 u1
  have r1: "fst (SetShardServedTypes mem_deps stuck_Wrangler ''test_keyspace'' ''0''
                   [''rdonly''] world_abc) = Some (Topo (TopoError ''unlock failed''))"
    by blast
  from amended [where wr = stuck_Wrangler and d = mem_deps and w = world_abc
               and ue = "TopoError ''unlock failed''"]
       l2 b2 u2
  have r2: "fst (RemoveShardCell mem_deps stuck_Wrangler ''test_keyspace'' ''0'' ''b'' False
                   world_abc) = Some (Topo (TopoError ''unlock failed''))"
    by blast
  from amended [where wr = mem_Wrangler and d = mem_deps and n = UpdateShard_actionnode
               and wb = world_abc and uerr = "Some (TopoError ''lock not held'')"
               and su = mem_abc and lp = "''stale''"] u3
  have r3: "fst (fst (unlockShard mem_deps mem_Wrangler ''test_keyspace'' ''0''
                        UpdateShard_actionnode ''stale'' None world_abc))
              = Some (Topo (TopoError ''lock not held''))"
    by simp
  from r1 r2 r3 show ?thesis by (intro conjI)
qed

text \<open>
  C3: at release the action node goes to Failed, with the text of the error, when the
  guarded body returned an error, and to Done with an empty text otherwise. For
  SetShardServedTypes and RemoveShardCell, once the lock is held, the body hands no
  action node to the store, so the store sees the node exactly twice: Queued when the
  lock is taken, Done or Failed when it is released.
\<close>

theorem action_node_state_at_release:
  "snd (fst (unlockShard d wr ks shard n lp err w)) =
     n\<lparr>Error := (case err of None \<Rightarrow> [] | Some e \<Rightarrow> ErrorString d e),
       State := (case err of None \<Rightarrow> ACTION_STATE_DONE | Some e \<Rightarrow> ACTION_STATE_FAILED)\<rparr>
   \<and> State (snd (fst (unlockShard d wr ks shard n lp err w))) \<noteq> ACTION_STATE_QUEUED
   \<and> State (SetShardServedTypes_actionnode st) = ACTION_STATE_QUEUED
   \<and> State UpdateShard_actionnode = ACTION_STATE_QUEUED
   \<and> (lockShard d wr ks shard (SetShardServedTypes_actionnode st) w = (Inr lp, wl) \<longrightarrow>
      setShardServedTypes wr ks shard st wl = (err, wb) \<longrightarrow>
      payloads (events (snd (SetShardServedTypes d wr ks shard st w))) =
        payloads (events w) @
          [ToJson d (SetShardServedTypes_actionnode st),
           ToJson d ((SetShardServedTypes_actionnode st)
             \<lparr>Error := (case err of None \<Rightarrow> [] | Some e \<Rightarrow> ErrorString d e),
              State := (case err of None \<Rightarrow> ACTION_STATE_DONE
                        | Some e \<Rightarrow> ACTION_STATE_FAILED)\<rparr>)])
   \<and> (lockShard d wr ks shard UpdateShard_actionnode w = (Inr lp, wl) \<longrightarrow>
      removeShardCell wr ks shard cell force wl = (err, wb) \<longrightarrow>
      payloads (events (snd (RemoveShardCell d wr ks shard cell force w))) =
        payloads (events w) @
          [ToJson d UpdateShard_actionnode,
           ToJson d (UpdateShard_actionnode
             \<lparr>Error := (case err of None \<Rightarrow> [] | Some e \<Rightarrow> ErrorString d e),
              State := (case err of None \<Rightarrow> ACTION_STATE_DONE
                        | Some e \<Rightarrow> ACTION_STATE_FAILED)\<rparr>)])"
proof (intro conjI impI)
  show "snd (fst (unlockShard d wr ks shard n lp err w)) =
     n\<lparr>Error := (case err of None \<Rightarrow> [] | Some e \<Rightarrow> ErrorString d e),
       State := (case err of None \<Rightarrow> ACTION_STATE_DONE | Some e \<Rightarrow> ACTION_STATE_FAILED)\<rparr>"
    by (rule unlockShard_node)
  show "State (snd (fst (unlockShard d wr ks shard n lp err w))) \<noteq> ACTION_STATE_QUEUED"
    by (simp add: unlockShard_node split: option.splits)
  show "State (SetShardServedTypes_actionnode st) = ACTION_STATE_QUEUED"
    by (simp add: SetShardServedTypes_actionnode_def)
  show "State UpdateShard_actionnode = ACTION_STATE_QUEUED"
    by (simp add: UpdateShard_actionnode_def)
next
  let ?n = "SetShardServedTypes_actionnode st"
  assume lock: "lockShard d wr ks shard ?n w = (Inr lp, wl)"
     and body: "setShardServedTypes wr ks shard st wl = (err, wb)"
  have "payloads (events wl) = payloads (events w) @ [ToJson d ?n]"
    using lockShard_events [OF lock] by (simp add: payloads_append)
  moreover have "payloads (events wb) = payloads (events wl)"
    using setShardServedTypes_payloads [of wr ks shard st wl] body by simp
  ultimately show "payloads (events (snd (SetShardServedTypes d wr ks shard st w))) =
        payloads (events w) @
          [ToJson d ?n,
           ToJson d (?n\<lparr>Error := (case err of None \<Rightarrow> [] | Some e \<Rightarrow> ErrorString d e),
                       State := (case err of None \<Rightarrow> ACTION_STATE_DONE
                                 | Some e \<Rightarrow> ACTION_STATE_FAILED)\<rparr>)]"
    by (simp add: SetShardServedTypes_locked [OF lock body] unlockShard_payloads)
next
  let ?n = "UpdateShard_actionnode"
  assume lock: "lockShard d wr ks shard ?n w = (Inr lp, wl)"
     and body: "removeShardCell wr ks shard cell force wl = (err, wb)"
  have "payloads (events wl) = payloads (events w) @ [ToJson d ?n]"
    using lockShard_events [OF lock] by (simp add: payloads_append)
  moreover have "payloads (events wb) = payloads (events wl)"
    using removeShardCell_payloads [of wr ks shard cell force wl] body by simp
  ultimately show "payloads (events (snd (RemoveShardCell d wr ks shard cell force w))) =
        payloads (events w) @
          [ToJson d ?n,
           ToJson d (?n\<lparr>Error := (case err of None \<Rightarrow> [] | Some e \<Rightarrow> ErrorString d e),
                       State := (case err of None \<Rightarrow> ACTION_STATE_DONE
                                 | Some e \<Rightarrow> ACTION_STATE_FAILED)\<rparr>)]"
    by (simp add: RemoveShardCell_locked [OF lock body] unlockShard_payloads)
qed

theorem action_node_state_at_release_witness:
  "payloads (events (snd (SetShardServedTypes mem_deps mem_Wrangler ''test_keyspace'' ''0''
      [''rdonly''] world_abc))) = [''queued:'', ''done:'']
   \<and> payloads (events (snd (RemoveShardCell mem_deps mem_Wrangler ''test_keyspace'' ''0'' ''a''
        False world_abc)))
     = [''queued:'', ''failed:master %v is in the cell '%v' we want to remove'']"
proof -
  let ?lp = "''test_keyspace/0/action''"
  let ?n1 = "SetShardServedTypes_actionnode [''rdonly'']"
  let ?l1 = "lockShard mem_deps mem_Wrangler ''test_keyspace'' ''0'' ?n1 world_abc"
  let ?b1 = "setShardServedTypes mem_Wrangler ''test_keyspace'' ''0'' [''rdonly''] (snd ?l1)"
  let ?l2 = "lockShard mem_deps mem_Wrangler ''test_keyspace'' ''0'' UpdateShard_actionnode
               world_abc"
  let ?b2 = "removeShardCell mem_Wrangler ''test_keyspace'' ''0'' ''a'' False (snd ?l2)"
  have l1: "?l1 = (Inr ?lp, snd ?l1)"
    by (rule pair_collapse_fst) (simp add: wrangler_simps mem_simps)
  have b1: "?b1 = (None, snd ?b1)"
    by (rule pair_collapse_fst) (simp add: wrangler_simps mem_simps)
  have l2: "?l2 = (Inr ?lp, snd ?l2)"
    by (rule pair_collapse_fst) (simp add: wrangler_simps mem_simps)
  have b2: "?b2 = (Some (MasterInCell \<lparr>Cell = ''a'', Uid = 1\<rparr> ''a''), snd ?b2)"
    by (rule pair_collapse_fst) (simp add: wrangler_simps mem_simps)
  note release = action_node_state_at_release
    [THEN conjunct2, THEN conjunct2, THEN conjunct2, THEN conjunct2]
  have r1: "payloads (events (snd (SetShardServedTypes mem_deps mem_Wrangler ''test_keyspace''
      ''0'' [''rdonly''] world_abc))) = [''queued:'', ''done:'']"
    using release [THEN conjunct1, rule_format, OF l1 b1]
    by (simp add: mem_deps_def SetShardServedTypes_actionnode_def world_abc_def)
  have r2: "payloads (events (snd (RemoveShardCell mem_deps mem_Wrangler ''test_keyspace'' ''0''
      ''a'' False world_abc)))
     = [''queued:'', ''failed:master %v is in the cell '%v' we want to remove'']"
    using release [THEN conjunct2, rule_format, OF l2 b2]
    by (simp add: mem_deps_def UpdateShard_actionnode_def world_abc_def MasterInCell_def)
  from r1 r2 show ?thesis by (intro conjI)
qed

subsection \<open>DeleteShard and the tablet map\<close>

text \<open>
  C2: given that GetShard and the tablet-map fetch succeed, DeleteShard returns the
  ShardNotEmpty error exactly when the fetched tablet map is not empty; it then returns at
  once, having issued the two reads and nothing else. With an empty map the result is the
  one of the final deletion of the shard record, which is never a ShardNotEmpty error,
  whatever the server did during the per-cell cleanup.
\<close>

theorem DeleteShard_ShardNotEmpty_iff:
  assumes "GetShard (ts wr) ks shard (store w) = (Inr si, sa)"
      and "GetTabletMapForShard d (ts wr) ks shard sa = (Inr tabletMap, sb)"
  shows "((\<exists>n. fst (DeleteShard d wr ks shard w) = Some (ShardNotEmpty ks shard n))
            \<longleftrightarrow> tabletMap \<noteq> [])
       \<and> (tabletMap \<noteq> [] \<longrightarrow>
            DeleteShard d wr ks shard w =
              (Some (ShardNotEmpty ks shard (length tabletMap)),
               \<lparr>store = sb,
                events = events w @ [Call (GetShard_req ks shard),
                                     Call (GetTabletMapForShard_req ks shard)]\<rparr>))
       \<and> (tabletMap = [] \<longrightarrow>
            fst (DeleteShard d wr ks shard w) =
              map_option Topo
                (fst (DeleteShard_Server (ts wr) ks shard
                   (store (deleteShardCells d wr ks shard (Cells si)
                      \<lparr>store = sb,
                       events = events w @ [Call (GetShard_req ks shard),
                                            Call (GetTabletMapForShard_req ks shard)]\<rparr>)))))"
proof -
  let ?wb = "\<lparr>store = sb,
              events = events w @ [Call (GetShard_req ks shard),
                                   Call (GetTabletMapForShard_req ks shard)]\<rparr>"
  have full: "tabletMap \<noteq> [] \<Longrightarrow>
      DeleteShard d wr ks shard w = (Some (ShardNotEmpty ks shard (length tabletMap)), ?wb)"
    using assms by (simp add: DeleteShard_def invoke_def)
  have empty: "tabletMap = [] \<Longrightarrow>
      fst (DeleteShard d wr ks shard w) =
        map_option Topo (fst (DeleteShard_Server (ts wr) ks shard
           (store (deleteShardCells d wr ks shard (Cells si) ?wb))))"
    using assms by (simp add: DeleteShard_def invoke_def split: prod.splits)
  have "(\<exists>n. fst (DeleteShard d wr ks shard w) = Some (ShardNotEmpty ks shard n))
          \<longleftrightarrow> tabletMap \<noteq> []"
  proof (cases "tabletMap = []")
    case True
    then show ?thesis
      by (auto simp: empty ShardNotEmpty_def)
  next
    case False
    then show ?thesis
      by (auto simp: full)
  qed
  with full empty show ?thesis by blast
qed

theorem DeleteShard_ShardNotEmpty_iff_witness:
  "DeleteShard mem_deps mem_Wrangler ''test_keyspace'' ''0'' world_tablet
     = (Some (ShardNotEmpty ''test_keyspace'' ''0'' 1),
        \<lparr>store = store world_tablet,
         events = [Call (GetShard_req ''test_keyspace'' ''0''),
                   Call (GetTabletMapForShard_req ''test_keyspace'' ''0'')]\<rparr>)
   \<and> (\<nexists>n. fst (DeleteShard mem_deps mem_Wrangler ''test_keyspace'' ''0'' world_abc)
            = Some (ShardNotEmpty ''test_keyspace'' ''0'' n))"
proof -
  have g1: "GetShard (ts mem_Wrangler) ''test_keyspace'' ''0'' (store world_tablet)
              = (Inr shard_abc, store world_tablet)"
    by (simp add: mem_simps world_tablet_def)
  have t1: "GetTabletMapForShard mem_deps (ts mem_Wrangler) ''test_keyspace'' ''0''
              (store world_tablet) = (Inr [\<lparr>Cell = ''a'', Uid = 1\<rparr>], store world_tablet)"
    by (simp add: mem_simps world_tablet_def)
  have g2: "GetShard (ts mem_Wrangler) ''test_keyspace'' ''0'' (store world_abc)
              = (Inr shard_abc, store world_abc)"
    by (simp add: mem_simps)
  have t2: "GetTabletMapForShard mem_deps (ts mem_Wrangler) ''test_keyspace'' ''0''
              (store world_abc) = (Inr [], store world_abc)"
    by (simp add: mem_simps)
  have r1: "DeleteShard mem_deps mem_Wrangler ''test_keyspace'' ''0'' world_tablet
     = (Some (ShardNotEmpty ''test_keyspace'' ''0'' 1),
        \<lparr>store = store world_tablet,
         events = [Call (GetShard_req ''test_keyspace'' ''0''),
                   Call (GetTabletMapForShard_req ''test_keyspace'' ''0'')]\<rparr>)"
    using DeleteShard_ShardNotEmpty_iff [OF g1 t1, THEN conjunct2, THEN conjunct1]
    by (simp add: world_tablet_def)
  have r2: "\<nexists>n. fst (DeleteShard mem_deps mem_Wrangler ''test_keyspace'' ''0'' world_abc)
            = Some (ShardNotEmpty ''test_keyspace'' ''0'' n)"
    using DeleteShard_ShardNotEmpty_iff [OF g2 t2, THEN conjunct1] by simp
  from r1 r2 show ?thesis by (intro conjI)
qed

subsection \<open>SetShardServedTypes\<close>

lemma lockShard_serving:
  "filter serving_request (events (snd (lockShard d wr ks shard n w)))
     = filter serving_request (events w)"
  by (auto simp: lockShard_def invoke_def logf_def split: prod.splits)

lemma unlockShard_serving:
  "filter serving_request (events (snd (unlockShard d wr ks shard n lp err w)))
     = filter serving_request (events w)"
  by (auto simp: unlockShard_def invoke_def logf_def split: option.splits prod.splits)

lemma setShardServedTypes_serving:
  "filter serving_request (events (snd (setShardServedTypes wr ks shard st w)))
     = filter serving_request (events w)"
  by (auto simp: setShardServedTypes_def invoke_def Let_def split: prod.splits sum.splits)

lemma SetShardServedTypes_serving:
  "filter serving_request (events (snd (SetShardServedTypes d wr ks shard st w)))
     = filter serving_request (events w)"
proof (cases "lockShard d wr ks shard (SetShardServedTypes_actionnode st) w")
  case (Pair r wl)
  have wl: "filter serving_request (events wl) = filter serving_request (events w)"
    using lockShard_serving [of d wr ks shard "SetShardServedTypes_actionnode st" w] Pair
    by simp
  show ?thesis
  proof (cases r)
    case (Inl e)
    with Pair wl show ?thesis
      by (simp add: SetShardServedTypes_def)
  next
    case (Inr lp)
    obtain err wb where body: "setShardServedTypes wr ks shard st wl = (err, wb)"
      by (cases "setShardServedTypes wr ks shard st wl")
    have "filter serving_request (events wb) = filter serving_request (events wl)"
      using setShardServedTypes_serving [of wr ks shard st wl] body by simp
    with wl show ?thesis
      using SetShardServedTypes_locked [OF Pair [unfolded Inr] body]
      by (simp add: unlockShard_serving)
  qed
qed

text \<open>
  C9: given that the read of the shard record succeeds (the lock is then held, the read
  comes after it), SetShardServedTypes writes back the record it read with
  \<^verbatim>\<open>ServedTypes\<close> replaced by the requested list and every other field as read: it
  issues, in this order, the lock, the read, that one write and the unlock, and nothing
  else, so no request on a serving-directory entry.
\<close>

theorem SetShardServedTypes_writes_back:
  assumes lock: "lockShard d wr ks shard (SetShardServedTypes_actionnode servedTypes) w
                   = (Inr lp, wl)"
      and read: "GetShard (ts wr) ks shard (store wl) = (Inr si, sa)"
      and upd: "UpdateShard (ts wr) (si\<lparr>ServedTypes := servedTypes\<rparr>) sa = (uerr, sb)"
  shows "requests (events (snd (SetShardServedTypes d wr ks shard servedTypes w))) =
           requests (events w) @
             [LockShardForAction_req ks shard
                (ToJson d (SetShardServedTypes_actionnode servedTypes)) (lockTimeout wr),
              GetShard_req ks shard,
              UpdateShard_req (si\<lparr>ServedTypes := servedTypes\<rparr>),
              UnlockShardForAction_req ks shard lp
                (ToJson d ((SetShardServedTypes_actionnode servedTypes)
                   \<lparr>Error := (case uerr of None \<Rightarrow> []
                              | Some ue \<Rightarrow> ErrorString d (Topo ue)),
                    State := (case uerr of None \<Rightarrow> ACTION_STATE_DONE
                              | Some ue \<Rightarrow> ACTION_STATE_FAILED)\<rparr>))]
       \<and> written (events (snd (SetShardServedTypes d wr ks shard servedTypes w))) =
           written (events w) @ [si\<lparr>ServedTypes := servedTypes\<rparr>]
       \<and> fst (SetShardServedTypes d wr ks shard servedTypes w) =
           (case uerr of
              Some ue \<Rightarrow> Some (Topo ue)
            | None \<Rightarrow>
                map_option Topo
                  (fst (UnlockShardForAction (ts wr) ks shard lp
                     (ToJson d ((SetShardServedTypes_actionnode servedTypes)
                        \<lparr>Error := [], State := ACTION_STATE_DONE\<rparr>)) sb)))
       \<and> setShardServedTypes wr ks shard servedTypes wl =
           (map_option Topo uerr,
            \<lparr>store = sb,
             events = events wl @
               [Call (GetShard_req ks shard),
                Call (UpdateShard_req (si\<lparr>ServedTypes := servedTypes\<rparr>))]\<rparr>)
       \<and> ServedTypes (si\<lparr>ServedTypes := servedTypes\<rparr>) = servedTypes
       \<and> keyspace (si\<lparr>ServedTypes := servedTypes\<rparr>) = keyspace si
       \<and> shardName (si\<lparr>ServedTypes := servedTypes\<rparr>) = shardName si
       \<and> MasterAlias (si\<lparr>ServedTypes := servedTypes\<rparr>) = MasterAlias si
       \<and> Cells (si\<lparr>ServedTypes := servedTypes\<rparr>) = Cells si
       \<and> filter serving_request
            (events (snd (SetShardServedTypes d wr ks shard servedTypes w')))
          = filter serving_request (events w')"
proof -
  let ?n = "SetShardServedTypes_actionnode servedTypes"
  let ?si = "si\<lparr>ServedTypes := servedTypes\<rparr>"
  let ?wb = "\<lparr>store = sb,
              events = events wl @ [Call (GetShard_req ks shard), Call (UpdateShard_req ?si)]\<rparr>"
  have body: "setShardServedTypes wr ks shard servedTypes wl = (map_option Topo uerr, ?wb)"
    using read upd by (simp add: setShardServedTypes_def invoke_def Let_def)
  note whole = SetShardServedTypes_locked [OF lock body]
  note evl = lockShard_events [OF lock]
  have rq: "requests (events (snd (SetShardServedTypes d wr ks shard servedTypes w))) =
           requests (events w) @
             [LockShardForAction_req ks shard (ToJson d ?n) (lockTimeout wr),
              GetShard_req ks shard,
              UpdateShard_req ?si,
              UnlockShardForAction_req ks shard lp
                (ToJson d (?n\<lparr>Error := (case uerr of None \<Rightarrow> []
                                       | Some ue \<Rightarrow> ErrorString d (Topo ue)),
                             State := (case uerr of None \<Rightarrow> ACTION_STATE_DONE
                                       | Some ue \<Rightarrow> ACTION_STATE_FAILED)\<rparr>))]"
    by (cases uerr) (simp_all add: whole unlockShard_requests evl requests_append)
  have wr: "written (events (snd (SetShardServedTypes d wr ks shard servedTypes w))) =
           written (events w) @ [?si]"
    by (simp add: whole unlockShard_written evl written_append)
  have res: "fst (SetShardServedTypes d wr ks shard servedTypes w) =
           (case uerr of
              Some ue \<Rightarrow> Some (Topo ue)
            | None \<Rightarrow>
                map_option Topo
                  (fst (UnlockShardForAction (ts wr) ks shard lp
                     (ToJson d (?n\<lparr>Error := [], State := ACTION_STATE_DONE\<rparr>)) sb)))"
    by (cases uerr) (simp_all add: whole unlockShard_Some unlockShard_None_fst)
  from rq wr res body show ?thesis
    by (simp add: SetShardServedTypes_serving)
qed

theorem SetShardServedTypes_writes_back_witness:
  "fst (SetShardServedTypes mem_deps mem_Wrangler ''test_keyspace'' ''0'' [''rdonly'']
          world_abc) = None
   \<and> requests (events (snd (SetShardServedTypes mem_deps mem_Wrangler ''test_keyspace'' ''0''
                              [''rdonly''] world_abc)))
       = [LockShardForAction_req ''test_keyspace'' ''0'' ''queued:'' 30,
          GetShard_req ''test_keyspace'' ''0'',
          UpdateShard_req
            \<lparr>keyspace = ''test_keyspace'', shardName = ''0'',
             MasterAlias = \<lparr>Cell = ''a'', Uid = 1\<rparr>,
             ServedTypes = [''rdonly''], Cells = [''a'', ''b'', ''c'']\<rparr>,
          UnlockShardForAction_req ''test_keyspace'' ''0'' ''test_keyspace/0/action''
            ''done:'']
   \<and> written (events (snd (SetShardServedTypes mem_deps mem_Wrangler ''test_keyspace'' ''0''
                             [''rdonly''] world_abc)))
       = [\<lparr>keyspace = ''test_keyspace'', shardName = ''0'',
           MasterAlias = \<lparr>Cell = ''a'', Uid = 1\<rparr>,
           ServedTypes = [''rdonly''], Cells = [''a'', ''b'', ''c'']\<rparr>]
   \<and> m_shards (store (snd (SetShardServedTypes mem_deps mem_Wrangler ''test_keyspace'' ''0''
                              [''rdonly''] world_abc))) (''test_keyspace'', ''0'')
       = Some \<lparr>keyspace = ''test_keyspace'', shardName = ''0'',
               MasterAlias = \<lparr>Cell = ''a'', Uid = 1\<rparr>,
               ServedTypes = [''rdonly''], Cells = [''a'', ''b'', ''c'']\<rparr>
   \<and> m_srvTypes (store (snd (SetShardServedTypes mem_deps mem_Wrangler ''test_keyspace'' ''0''
                                [''rdonly''] world_abc)))
       = {(''b'', ''test_keyspace'', ''0'', ''replica'')}"
proof -
  let ?run = "SetShardServedTypes mem_deps mem_Wrangler ''test_keyspace'' ''0'' [''rdonly'']
                world_abc"
  let ?lp = "''test_keyspace/0/action''"
  let ?l = "lockShard mem_deps mem_Wrangler ''test_keyspace'' ''0''
              (SetShardServedTypes_actionnode [''rdonly'']) world_abc"
  let ?si = "shard_abc\<lparr>ServedTypes := [''rdonly'']\<rparr>"
  let ?u = "UpdateShard (ts mem_Wrangler) ?si (store (snd ?l))"
  have lock: "?l = (Inr ?lp, snd ?l)"
    by (rule pair_collapse_fst) (simp add: wrangler_simps mem_simps)
  have read: "GetShard (ts mem_Wrangler) ''test_keyspace'' ''0'' (store (snd ?l))
                = (Inr shard_abc, store (snd ?l))"
    by (simp add: wrangler_simps mem_simps)
  have upd: "?u = (None, snd ?u)"
    by (rule pair_collapse_fst) (simp add: mem_Wrangler_def mem_Server_def)
  note c9 = SetShardServedTypes_writes_back [OF lock read upd]
  have r1: "fst ?run = None"
    by (simp add: wrangler_simps mem_simps)
  have r2: "requests (events (snd ?run))
       = [LockShardForAction_req ''test_keyspace'' ''0'' ''queued:'' 30,
          GetShard_req ''test_keyspace'' ''0'',
          UpdateShard_req
            \<lparr>keyspace = ''test_keyspace'', shardName = ''0'',
             MasterAlias = \<lparr>Cell = ''a'', Uid = 1\<rparr>,
             ServedTypes = [''rdonly''], Cells = [''a'', ''b'', ''c'']\<rparr>,
          UnlockShardForAction_req ''test_keyspace'' ''0'' ''test_keyspace/0/action''
            ''done:'']"
    using c9 [THEN conjunct1]
    by (simp add: mem_deps_def mem_Wrangler_def SetShardServedTypes_actionnode_def
                  world_abc_def shard_abc_def)
  have r3: "written (events (snd ?run))
       = [\<lparr>keyspace = ''test_keyspace'', shardName = ''0'',
           MasterAlias = \<lparr>Cell = ''a'', Uid = 1\<rparr>,
           ServedTypes = [''rdonly''], Cells = [''a'', ''b'', ''c'']\<rparr>]"
    using c9 [THEN conjunct2, THEN conjunct1] by (simp add: world_abc_def shard_abc_def)
  have r4: "m_shards (store (snd ?run)) (''test_keyspace'', ''0'')
       = Some \<lparr>keyspace = ''test_keyspace'', shardName = ''0'',
               MasterAlias = \<lparr>Cell = ''a'', Uid = 1\<rparr>,
               ServedTypes = [''rdonly''], Cells = [''a'', ''b'', ''c'']\<rparr>"
    by (simp add: wrangler_simps mem_simps)
  have r5: "m_srvTypes (store (snd ?run)) = {(''b'', ''test_keyspace'', ''0'', ''replica'')}"
    by (simp add: wrangler_simps mem_simps)
  from r1 r2 r3 r4 r5 show ?thesis by (intro conjI)
qed

subsection \<open>RemoveShardCell\<close>

lemma removeShardCell_update_eq:
  assumes "UpdateShard (ts wr) (si\<lparr>Cells := filter (\<lambda>c. c \<noteq> cell) (Cells si)\<rparr>) (store w)
             = (uerr, s')"
  shows "removeShardCell_update wr ks shard cell si w =
           (map_option Topo uerr,
            \<lparr>store = s',
             events = events w @
               [Infof ''Removing cell %v from shard %v/%v''
                  [ArgString cell, ArgString ks, ArgString shard],
                Call (UpdateShard_req
                  (si\<lparr>Cells := filter (\<lambda>c. c \<noteq> cell) (Cells si)\<rparr>))]\<rparr>)"
  using assms
  by (simp add: removeShardCell_update_def invoke_def logf_def Let_def newCells_loop_append)

lemma removeShardCell_update_written:
  "written (events (snd (removeShardCell_update wr ks shard cell si w))) =
     written (events w) @ [si\<lparr>Cells := filter (\<lambda>c. c \<noteq> cell) (Cells si)\<rparr>]"
  by (auto simp: removeShardCell_update_def invoke_def logf_def Let_def newCells_loop_append
                 written_append split: prod.splits)

text \<open>
  C6, as stated: when the lookup of the cell's replication record fails with an error
  other than \<^verbatim>\<open>topo.ErrNoNode\<close>, RemoveShardCell with force succeeds with the cell
  removed. It does not when the write of the shard record is refused: the lookup fails in
  cell b, the forced call goes on to the write of line 176, and returns the error of that
  write; the shard record still lists the three cells.
\<close>

theorem RemoveShardCell_forced_write_refused_counterexample:
  "GetShardReplication (ts refusing_Wrangler) ''b'' ''test_keyspace'' ''0'' (store world_abc)
     = (Inl (TopoError ''cell unreachable''), store world_abc)
   \<and> TopoError ''cell unreachable'' \<noteq> ErrNoNode
   \<and> filter warning (events (snd (RemoveShardCell mem_deps refusing_Wrangler
        ''test_keyspace'' ''0'' ''b'' True world_abc)))
       = [Warningf ''Cannot get ShardReplication from cell %v, assuming cell topo server is down, and forcing the removal''
            [ArgString ''b'']]
   \<and> fst (RemoveShardCell mem_deps refusing_Wrangler ''test_keyspace'' ''0'' ''b'' True
            world_abc) = Some (Topo (TopoError ''write refused''))
   \<and> map_option Cells (m_shards (store (snd (RemoveShardCell mem_deps refusing_Wrangler
        ''test_keyspace'' ''0'' ''b'' True world_abc))) (''test_keyspace'', ''0''))
       = Some [''a'', ''b'', ''c'']"
  by (simp add: wrangler_simps mem_simps refusing_Wrangler_def)

text \<open>
  C6, amended: when the lookup of the cell's replication record fails with an error other
  than \<^verbatim>\<open>topo.ErrNoNode\<close>, RemoveShardCell without force returns exactly that error
  and writes no shard record; with force it logs the warning, goes on to write the record
  with the cell removed, and returns the error of that write if it fails and else what
  the unlock returns: it succeeds when the write and the unlock do.
\<close>

theorem RemoveShardCell_lookup_error:
  assumes lock: "lockShard d wr ks shard UpdateShard_actionnode w = (Inr lp, wl)"
      and read: "GetShardCritical (ts wr) ks shard (store wl) = (Inr si, sa)"
      and listed: "cell \<in> set (Cells si)"
      and other: "Cell (MasterAlias si) \<noteq> cell"
      and lookup: "GetShardReplication (ts wr) cell ks shard sa = (Inl e, sb)"
      and e: "e \<noteq> ErrNoNode"
  shows "removeShardCell wr ks shard cell False wl =
           (Some (Topo e),
            \<lparr>store = sb,
             events = events wl @ [Call (GetShardCritical_req ks shard),
                                   Call (GetShardReplication_req cell ks shard)]\<rparr>)
       \<and> fst (RemoveShardCell d wr ks shard cell False w) = Some (Topo e)
       \<and> written (events (snd (RemoveShardCell d wr ks shard cell False w)))
           = written (events w)
       \<and> (UpdateShard (ts wr) (si\<lparr>Cells := filter (\<lambda>c. c \<noteq> cell) (Cells si)\<rparr>) sb
            = (uerr, sc) \<longrightarrow>
          removeShardCell wr ks shard cell True wl =
            (map_option Topo uerr,
             \<lparr>store = sc,
              events = events wl @
                [Call (GetShardCritical_req ks shard),
                 Call (GetShardReplication_req cell ks shard),
                 Warningf ''Cannot get ShardReplication from cell %v, assuming cell topo server is down, and forcing the removal''
                   [ArgString cell],
                 Infof ''Removing cell %v from shard %v/%v''
                   [ArgString cell, ArgString ks, ArgString shard],
                 Call (UpdateShard_req
                   (si\<lparr>Cells := filter (\<lambda>c. c \<noteq> cell) (Cells si)\<rparr>))]\<rparr>)
          \<and> written (events (snd (RemoveShardCell d wr ks shard cell True w)))
              = written (events w) @ [si\<lparr>Cells := filter (\<lambda>c. c \<noteq> cell) (Cells si)\<rparr>]
          \<and> (uerr = None \<longrightarrow>
               UnlockShardForAction (ts wr) ks shard lp
                 (ToJson d (UpdateShard_actionnode\<lparr>Error := [], State := ACTION_STATE_DONE\<rparr>))
                 sc = (None, sd) \<longrightarrow>
               fst (RemoveShardCell d wr ks shard cell True w) = None)
          \<and> fst (RemoveShardCell d wr ks shard cell True w) =
              (case uerr of
                 Some ue \<Rightarrow> Some (Topo ue)
               | None \<Rightarrow>
                   map_option Topo
                     (fst (UnlockShardForAction (ts wr) ks shard lp
                        (ToJson d (UpdateShard_actionnode
                           \<lparr>Error := [], State := ACTION_STATE_DONE\<rparr>)) sc))))"
proof -
  let ?wb = "\<lparr>store = sb,
              events = events wl @ [Call (GetShardCritical_req ks shard),
                                    Call (GetShardReplication_req cell ks shard)]\<rparr>"
  let ?si = "si\<lparr>Cells := filter (\<lambda>c. c \<noteq> cell) (Cells si)\<rparr>"
  let ?warn = "Warningf ''Cannot get ShardReplication from cell %v, assuming cell topo server is down, and forcing the removal'' [ArgString cell]"
  have wl: "written (events wl) = written (events w)"
    using lockShard_events [OF lock] by (simp add: written_append)
  have strict: "removeShardCell wr ks shard cell False wl = (Some (Topo e), ?wb)"
    using read listed other lookup e
    by (simp add: removeShardCell_def invoke_def InCellList_def split: topo_error.splits)
  have forced: "removeShardCell wr ks shard cell True wl =
      removeShardCell_update wr ks shard cell si (logf ?warn ?wb)"
    using read listed other lookup e
    by (simp add: removeShardCell_def invoke_def InCellList_def split: topo_error.splits)
  have r1: "fst (RemoveShardCell d wr ks shard cell False w) = Some (Topo e)"
    by (simp add: RemoveShardCell_locked [OF lock strict] unlockShard_Some)
  have r2: "written (events (snd (RemoveShardCell d wr ks shard cell False w)))
              = written (events w)"
    by (simp add: RemoveShardCell_locked [OF lock strict] unlockShard_written wl written_append)
  have r3: "removeShardCell wr ks shard cell True wl =
      (map_option Topo uerr,
       \<lparr>store = sc,
        events = events wl @
          [Call (GetShardCritical_req ks shard), Call (GetShardReplication_req cell ks shard),
           ?warn,
           Infof ''Removing cell %v from shard %v/%v''
             [ArgString cell, ArgString ks, ArgString shard],
           Call (UpdateShard_req ?si)]\<rparr>)"
    if "UpdateShard (ts wr) ?si sb = (uerr, sc)"
    using that by (simp add: forced removeShardCell_update_eq logf_def)
  have r4: "written (events (snd (RemoveShardCell d wr ks shard cell True w)))
              = written (events w) @ [?si]"
    if "UpdateShard (ts wr) ?si sb = (uerr, sc)"
    by (simp add: RemoveShardCell_locked [OF lock r3 [OF that]] unlockShard_written wl
                  written_append)
  have r5: "fst (RemoveShardCell d wr ks shard cell True w) = None"
    if "UpdateShard (ts wr) ?si sb = (uerr, sc)" and "uerr = None"
      and "UnlockShardForAction (ts wr) ks shard lp
             (ToJson d (UpdateShard_actionnode\<lparr>Error := [], State := ACTION_STATE_DONE\<rparr>))
             sc = (None, sd)"
    using that
    by (simp add: RemoveShardCell_locked [OF lock r3 [OF that(1)]] unlockShard_None)
  have r6: "fst (RemoveShardCell d wr ks shard cell True w) =
              (case uerr of
                 Some ue \<Rightarrow> Some (Topo ue)
               | None \<Rightarrow>
                   map_option Topo
                     (fst (UnlockShardForAction (ts wr) ks shard lp
                        (ToJson d (UpdateShard_actionnode
                           \<lparr>Error := [], State := ACTION_STATE_DONE\<rparr>)) sc)))"
    if "UpdateShard (ts wr) ?si sb = (uerr, sc)"
    by (cases uerr)
       (simp_all add: RemoveShardCell_locked [OF lock r3 [OF that]] unlockShard_Some
                      unlockShard_None_fst)
  from strict r1 r2 r3 r4 r5 r6 show ?thesis by blast
qed

theorem RemoveShardCell_lookup_error_witness:
  "fst (RemoveShardCell mem_deps unreachable_Wrangler ''test_keyspace'' ''0'' ''b'' False
          world_abc) = Some (Topo (TopoError ''cell unreachable''))
   \<and> written (events (snd (RemoveShardCell mem_deps unreachable_Wrangler ''test_keyspace''
        ''0'' ''b'' False world_abc))) = []
   \<and> fst (RemoveShardCell mem_deps unreachable_Wrangler ''test_keyspace'' ''0'' ''b'' True
            world_abc) = None
   \<and> written (events (snd (RemoveShardCell mem_deps unreachable_Wrangler ''test_keyspace''
        ''0'' ''b'' True world_abc)))
       = [\<lparr>keyspace = ''test_keyspace'', shardName = ''0'',
           MasterAlias = \<lparr>Cell = ''a'', Uid = 1\<rparr>,
           ServedTypes = [''master'', ''replica''], Cells = [''a'', ''c'']\<rparr>]
   \<and> filter warning (events (snd (RemoveShardCell mem_deps unreachable_Wrangler
        ''test_keyspace'' ''0'' ''b'' True world_abc)))
       = [Warningf ''Cannot get ShardReplication from cell %v, assuming cell topo server is down, and forcing the removal''
            [ArgString ''b'']]
   \<and> fst (RemoveShardCell mem_deps refusing_Wrangler ''test_keyspace'' ''0'' ''b'' True
            world_abc) = Some (Topo (TopoError ''write refused''))"
proof -
  let ?lp = "''test_keyspace/0/action''"
  let ?l = "lockShard mem_deps unreachable_Wrangler ''test_keyspace'' ''0''
              UpdateShard_actionnode world_abc"
  let ?sa = "store (snd ?l)"
  let ?si = "shard_abc\<lparr>Cells := filter (\<lambda>c. c \<noteq> ''b'') (Cells shard_abc)\<rparr>"
  let ?u = "UpdateShard (ts unreachable_Wrangler) ?si ?sa"
  let ?r = "UnlockShardForAction (ts unreachable_Wrangler) ''test_keyspace'' ''0'' ?lp
              (ToJson mem_deps (UpdateShard_actionnode\<lparr>Error := [], State := ACTION_STATE_DONE\<rparr>))
              (snd ?u)"
  have lock: "?l = (Inr ?lp, snd ?l)"
    by (rule pair_collapse_fst) (simp add: wrangler_simps mem_simps unreachable_Wrangler_def)
  have read: "GetShardCritical (ts unreachable_Wrangler) ''test_keyspace'' ''0'' ?sa
                = (Inr shard_abc, ?sa)"
    by (simp add: wrangler_simps mem_simps unreachable_Wrangler_def)
  have listed: "''b'' \<in> set (Cells shard_abc)"
    by (simp add: shard_abc_def)
  have other: "Cell (MasterAlias shard_abc) \<noteq> ''b''"
    by (simp add: shard_abc_def)
  have lookup: "GetShardReplication (ts unreachable_Wrangler) ''b'' ''test_keyspace'' ''0'' ?sa
                  = (Inl (TopoError ''cell unreachable''), ?sa)"
    by (simp add: mem_Wrangler_def mem_Server_def unreachable_Wrangler_def)
  have e: "TopoError ''cell unreachable'' \<noteq> ErrNoNode"
    by simp
  have u: "?u = (None, snd ?u)"
    by (rule pair_collapse_fst) (simp add: mem_Wrangler_def mem_Server_def unreachable_Wrangler_def)
  have r: "?r = (None, snd ?r)"
    by (rule pair_collapse_fst) (simp add: wrangler_simps mem_simps unreachable_Wrangler_def)
  note c6 = RemoveShardCell_lookup_error [OF lock read listed other lookup e]
  have r1: "fst (RemoveShardCell mem_deps unreachable_Wrangler ''test_keyspace'' ''0'' ''b''
                   False world_abc) = Some (Topo (TopoError ''cell unreachable''))"
    using c6 [THEN conjunct2, THEN conjunct1] .
  have r2: "written (events (snd (RemoveShardCell mem_deps unreachable_Wrangler
                ''test_keyspace'' ''0'' ''b'' False world_abc))) = []"
    using c6 [THEN conjunct2, THEN conjunct2, THEN conjunct1] by (simp add: world_abc_def)
  note forced = c6 [THEN conjunct2, THEN conjunct2, THEN conjunct2, rule_format, OF u]
  have r3: "fst (RemoveShardCell mem_deps unreachable_Wrangler ''test_keyspace'' ''0'' ''b''
                   True world_abc) = None"
    using forced [THEN conjunct2, THEN conjunct2, THEN conjunct1, rule_format, OF refl r] .
  have r4: "written (events (snd (RemoveShardCell mem_deps unreachable_Wrangler
                ''test_keyspace'' ''0'' ''b'' True world_abc)))
       = [\<lparr>keyspace = ''test_keyspace'', shardName = ''0'',
           MasterAlias = \<lparr>Cell = ''a'', Uid = 1\<rparr>,
           ServedTypes = [''master'', ''replica''], Cells = [''a'', ''c'']\<rparr>]"
    using forced [THEN conjunct2, THEN conjunct1] by (simp add: world_abc_def shard_abc_def)
  have r5: "filter warning (events (snd (RemoveShardCell mem_deps unreachable_Wrangler
        ''test_keyspace'' ''0'' ''b'' True world_abc)))
       = [Warningf ''Cannot get ShardReplication from cell %v, assuming cell topo server is down, and forcing the removal''
            [ArgString ''b'']]"
    by (simp add: wrangler_simps mem_simps unreachable_Wrangler_def)
  let ?l' = "lockShard mem_deps refusing_Wrangler ''test_keyspace'' ''0''
               UpdateShard_actionnode world_abc"
  let ?sa' = "store (snd ?l')"
  let ?u' = "UpdateShard (ts refusing_Wrangler) ?si ?sa'"
  have lock': "?l' = (Inr ?lp, snd ?l')"
    by (rule pair_collapse_fst) (simp add: wrangler_simps mem_simps refusing_Wrangler_def)
  have read': "GetShardCritical (ts refusing_Wrangler) ''test_keyspace'' ''0'' ?sa'
                 = (Inr shard_abc, ?sa')"
    by (simp add: wrangler_simps mem_simps refusing_Wrangler_def)
  have lookup': "GetShardReplication (ts refusing_Wrangler) ''b'' ''test_keyspace'' ''0'' ?sa'
                   = (Inl (TopoError ''cell unreachable''), ?sa')"
    by (simp add: mem_Wrangler_def mem_Server_def refusing_Wrangler_def)
  have u': "?u' = (Some (TopoError ''write refused''), ?sa')"
    by (simp add: mem_Wrangler_def mem_Server_def refusing_Wrangler_def)
  have r6: "fst (RemoveShardCell mem_deps refusing_Wrangler ''test_keyspace'' ''0'' ''b'' True
                   world_abc) = Some (Topo (TopoError ''write refused''))"
    using RemoveShardCell_lookup_error [OF lock' read' listed other lookup' e,
            THEN conjunct2, THEN conjunct2, THEN conjunct2, rule_format, OF u',
            THEN conjunct2, THEN conjunct2, THEN conjunct2]
    by simp
  from r1 r2 r3 r4 r5 r6 show ?thesis by (intro conjI)
qed

text \<open>
  C7: a RemoveShardCell that succeeds has written exactly one shard record: the record
  it read under the lock, with \<^verbatim>\<open>Cells\<close> filtered of the target cell, so that the
  remaining entries keep their order.
\<close>

lemma removeShardCell_success:
  assumes "fst (removeShardCell wr ks shard cell force w) = None"
  shows "\<exists>si sa. GetShardCritical (ts wr) ks shard (store w) = (Inr si, sa)
           \<and> cell \<in> set (Cells si)
           \<and> written (events (snd (removeShardCell wr ks shard cell force w)))
               = written (events w) @ [si\<lparr>Cells := filter (\<lambda>c. c \<noteq> cell) (Cells si)\<rparr>]"
proof (cases "GetShardCritical (ts wr) ks shard (store w)")
  case (Pair r sa)
  show ?thesis
  proof (cases r)
    case (Inl err)
    with Pair assms show ?thesis
      by (simp add: removeShardCell_def invoke_def)
  next
    case (Inr si)
    have listed: "cell \<in> set (Cells si)" and other: "Cell (MasterAlias si) \<noteq> cell"
      using Pair Inr assms
      by (auto simp: removeShardCell_def invoke_def InCellList_def split: if_splits)
    have "written (events (snd (removeShardCell wr ks shard cell force w)))
            = written (events w) @ [si\<lparr>Cells := filter (\<lambda>c. c \<noteq> cell) (Cells si)\<rparr>]"
      using Pair Inr listed other assms
      by (auto simp: removeShardCell_def invoke_def InCellList_def logf_def written_append
                     removeShardCell_update_written
               split: prod.splits sum.splits option.splits topo_error.splits if_splits)
    with Pair Inr listed show ?thesis by simp
  qed
qed

theorem RemoveShardCell_success_cells:
  assumes "fst (RemoveShardCell d wr ks shard cell force w) = None"
  shows "\<exists>lp wl si sa.
           lockShard d wr ks shard UpdateShard_actionnode w = (Inr lp, wl)
         \<and> GetShardCritical (ts wr) ks shard (store wl) = (Inr si, sa)
         \<and> cell \<in> set (Cells si)
         \<and> written (events (snd (RemoveShardCell d wr ks shard cell force w)))
             = written (events w) @ [si\<lparr>Cells := filter (\<lambda>c. c \<noteq> cell) (Cells si)\<rparr>]
         \<and> newCells_loop cell (Cells si) [] = filter (\<lambda>c. c \<noteq> cell) (Cells si)"
proof (cases "lockShard d wr ks shard UpdateShard_actionnode w")
  case (Pair r wl)
  show ?thesis
  proof (cases r)
    case (Inl err)
    with Pair assms show ?thesis
      by (simp add: RemoveShardCell_def)
  next
    case (Inr lp)
    obtain err wb where body: "removeShardCell wr ks shard cell force wl = (err, wb)"
      by (cases "removeShardCell wr ks shard cell force wl")
    note whole = RemoveShardCell_locked [OF Pair [unfolded Inr] body]
    have "err = None"
    proof (cases err)
      case (Some e)
      with assms whole show ?thesis
        by (simp add: unlockShard_Some)
    qed simp
    with body have "fst (removeShardCell wr ks shard cell force wl) = None"
      by simp
    from removeShardCell_success [OF this] obtain si sa where
      read: "GetShardCritical (ts wr) ks shard (store wl) = (Inr si, sa)"
      and listed: "cell \<in> set (Cells si)"
      and wb: "written (events (snd (removeShardCell wr ks shard cell force wl)))
                 = written (events wl) @ [si\<lparr>Cells := filter (\<lambda>c. c \<noteq> cell) (Cells si)\<rparr>]"
      by blast
    have wl: "written (events wl) = written (events w)"
      using lockShard_events [OF Pair] by (simp add: written_append)
    have "written (events (snd (RemoveShardCell d wr ks shard cell force w)))
            = written (events w) @ [si\<lparr>Cells := filter (\<lambda>c. c \<noteq> cell) (Cells si)\<rparr>]"
      using wb body wl by (simp add: whole unlockShard_written)
    with Pair Inr read listed show ?thesis
      by (simp add: newCells_loop_append)
  qed
qed

theorem RemoveShardCell_success_cells_witness:
  "fst (RemoveShardCell mem_deps mem_Wrangler ''test_keyspace'' ''0'' ''b'' False world_abc)
     = None
   \<and> written (events (snd (RemoveShardCell mem_deps mem_Wrangler ''test_keyspace'' ''0'' ''b''
        False world_abc)))
       = [\<lparr>keyspace = ''test_keyspace'', shardName = ''0'',
           MasterAlias = \<lparr>Cell = ''a'', Uid = 1\<rparr>,
           ServedTypes = [''master'', ''replica''], Cells = [''a'', ''c'']\<rparr>]
   \<and> map_option Cells (m_shards (store (snd (RemoveShardCell mem_deps mem_Wrangler
        ''test_keyspace'' ''0'' ''b'' False world_abc))) (''test_keyspace'', ''0''))
       = Some [''a'', ''c'']"
proof -
  let ?run = "RemoveShardCell mem_deps mem_Wrangler ''test_keyspace'' ''0'' ''b'' False world_abc"
  let ?l = "lockShard mem_deps mem_Wrangler ''test_keyspace'' ''0'' UpdateShard_actionnode
              world_abc"
  have ok: "fst ?run = None"
    by (simp add: wrangler_simps mem_simps)
  have read: "GetShardCritical (ts mem_Wrangler) ''test_keyspace'' ''0'' (store (snd ?l))
                = (Inr shard_abc, store (snd ?l))"
    by (simp add: wrangler_simps mem_simps)
  have stored: "map_option Cells (m_shards (store (snd ?run)) (''test_keyspace'', ''0''))
                  = Some [''a'', ''c'']"
    by (simp add: wrangler_simps mem_simps)
  from RemoveShardCell_success_cells [OF ok] obtain lp wl si sa where
    l: "?l = (Inr lp, wl)"
    and g: "GetShardCritical (ts mem_Wrangler) ''test_keyspace'' ''0'' (store wl) = (Inr si, sa)"
    and wr: "written (events (snd ?run))
               = written (events world_abc) @ [si\<lparr>Cells := filter (\<lambda>c. c \<noteq> ''b'') (Cells si)\<rparr>]"
    by (elim exE conjE)
  from l have "wl = snd ?l"
    by simp
  with g read have "si = shard_abc"
    by simp
  with wr have "written (events (snd ?run))
       = [\<lparr>keyspace = ''test_keyspace'', shardName = ''0'',
           MasterAlias = \<lparr>Cell = ''a'', Uid = 1\<rparr>,
           ServedTypes = [''master'', ''replica''], Cells = [''a'', ''c'']\<rparr>]"
    by (simp add: world_abc_def shard_abc_def)
  with ok stored show ?thesis by (intro conjI)
qed

subsection \<open>DeleteShard, the per-cell cleanup\<close>

lemma deleteSrvTabletTypes_requests:
  "requests (events (deleteSrvTabletTypes d wr cell ks shard tys w)) =
     requests (events w) @
       map (DeleteSrvTabletType_req cell ks shard) (filter (IsInServingGraph d) tys)"
  by (induction tys arbitrary: w)
     (auto simp: invoke_def logf_def requests_append split: prod.splits option.splits)

text \<open>
  The cleanup never stops early: whatever the server answers, the requests it issues are,
  for every cell of the shard in order, the deletion of the replication record, of the
  entry of every tablet type in the serving graph, and of the serving shard.
\<close>

lemma deleteShardCells_requests:
  "requests (events (deleteShardCells d wr ks shard cells w)) =
     requests (events w) @
       concat (map (\<lambda>cell.
           DeleteShardReplication_req cell ks shard
             # map (DeleteSrvTabletType_req cell ks shard)
                 (filter (IsInServingGraph d) (AllTabletTypes d))
             @ [DeleteSrvShard_req cell ks shard]) cells)"
  by (induction cells arbitrary: w)
     (auto simp: invoke_def logf_def requests_append deleteSrvTabletTypes_requests Let_def
           split: prod.splits option.splits)

text \<open>
  Past the tablet-map check, DeleteShard returns what the final deletion of the shard
  record returns, and nothing else.
\<close>

lemma DeleteShard_returns_terminal:
  assumes "GetShard (ts wr) ks shard (store w) = (Inr si, sa)"
      and "GetTabletMapForShard d (ts wr) ks shard sa = (Inr [], sb)"
  shows "requests (events (snd (DeleteShard d wr ks shard w))) =
           requests (events w) @
             [GetShard_req ks shard, GetTabletMapForShard_req ks shard] @
             concat (map (\<lambda>cell.
                 DeleteShardReplication_req cell ks shard
                   # map (DeleteSrvTabletType_req cell ks shard)
                       (filter (IsInServingGraph d) (AllTabletTypes d))
                   @ [DeleteSrvShard_req cell ks shard]) (Cells si)) @
             [DeleteShard_req ks shard]"
  using assms
  by (simp add: DeleteShard_def invoke_def requests_append deleteShardCells_requests
           split: prod.splits)

text \<open>
  C8 says that in the cleanup a not-found answer counts as success for all three
  deletions and only other errors are logged. Lines 96 and 101 do so for the serving
  entries; line 87 tests only \<^verbatim>\<open>err != nil\<close> for the replication record. On the shard
  of the examples, whose cells a and c hold no replication record, with a server that
  answers \<^verbatim>\<open>topo.ErrNoNode\<close> to the deletion of a missing record, DeleteShard succeeds
  and has logged one warning for each of the two cells; the missing serving entries of the
  three cells, answered with the same error, are not logged.
\<close>

theorem DeleteShard_warns_on_missing_replication:
  "fst (DeleteShard mem_deps strict_Wrangler ''test_keyspace'' ''0'' world_abc) = None
   \<and> filter warning (events (snd (DeleteShard mem_deps strict_Wrangler ''test_keyspace'' ''0''
                                    world_abc)))
       = [Warningf ''Cannot delete ShardReplication in cell %v for %v/%v: %v''
            [ArgString ''a'', ArgString ''test_keyspace'', ArgString ''0'',
             ArgError (Topo ErrNoNode)],
          Warningf ''Cannot delete ShardReplication in cell %v for %v/%v: %v''
            [ArgString ''c'', ArgString ''test_keyspace'', ArgString ''0'',
             ArgError (Topo ErrNoNode)]]
   \<and> fst (DeleteSrvShard (ts strict_Wrangler) ''a'' ''test_keyspace'' ''0'' (store world_abc))
       = Some ErrNoNode"
  by (simp add: wrangler_simps mem_simps strict_Wrangler_def)

subsection \<open>The round trip of a shard session\<close>

lemmas contractD = iffD1 [OF bson_contract_def]
lemmas contract_object = contractD [THEN conjunct1]
lemmas contract_prefix = contractD [THEN conjunct2, THEN conjunct1, rule_format]
lemmas contract_string = contractD [THEN conjunct2, THEN conjunct2, THEN conjunct1, rule_format]
lemmas contract_int64 =
  contractD [THEN conjunct2, THEN conjunct2, THEN conjunct2, THEN conjunct1, rule_format]
lemmas contract_byte =
  contractD [THEN conjunct2, THEN conjunct2, THEN conjunct2, THEN conjunct2, THEN conjunct1,
    rule_format]
lemmas contract_len =
  contractD [THEN conjunct2, THEN conjunct2, THEN conjunct2, THEN conjunct2, THEN conjunct2,
    THEN conjunct1, rule_format]
lemmas contract_next =
  contractD [THEN conjunct2, THEN conjunct2, THEN conjunct2, THEN conjunct2, THEN conjunct2,
    THEN conjunct2, THEN conjunct1, rule_format]
lemmas contract_read_string =
  contractD [THEN conjunct2, THEN conjunct2, THEN conjunct2, THEN conjunct2, THEN conjunct2,
    THEN conjunct2, THEN conjunct2, THEN conjunct1, rule_format]
lemmas contract_read_int64 =
  contractD [THEN conjunct2, THEN conjunct2, THEN conjunct2, THEN conjunct2, THEN conjunct2,
    THEN conjunct2, THEN conjunct2, THEN conjunct2, THEN conjunct1, rule_format]
lemmas contract_end =
  contractD [THEN conjunct2, THEN conjunct2, THEN conjunct2, THEN conjunct2, THEN conjunct2,
    THEN conjunct2, THEN conjunct2, THEN conjunct2, THEN conjunct2, rule_format]

lemma MarshalBson_layout:
  assumes "bson_contract b"
  shows "\<exists>slot. length slot = 4 \<and>
           MarshalBson_ShardSession b s [] [] =
             slot @ EncodeString b [] ''Keyspace'' (Keyspace s)
                  @ EncodeString b [] ''Shard'' (Shard s)
                  @ EncodeString b [] ''TabletType'' (TabletType s)
                  @ EncodeInt64 b [] ''TransactionId'' (TransactionId s)
                  @ WriteByte b [] (CHR 0x00)"
proof -
  let ?body = "EncodeString b [] ''Keyspace'' (Keyspace s)
                  @ EncodeString b [] ''Shard'' (Shard s)
                  @ EncodeString b [] ''TabletType'' (TabletType s)
                  @ EncodeInt64 b [] ''TransactionId'' (TransactionId s)
                  @ WriteByte b [] (CHR 0x00)"
  let ?w = "NewLenWriter b []"
  from contract_len [OF assms, of "[]" ?body] obtain slot where slot: "length slot = 4"
    and rec: "RecordLen b (fst ?w) (snd ?w @ ?body) = [] @ slot @ ?body"
    by (elim exE conjE)
  have "MarshalBson_ShardSession b s [] [] = RecordLen b (fst ?w) (snd ?w @ ?body)"
    unfolding MarshalBson_ShardSession_def Let_def contract_prefix [OF assms] case_prod_beta
    by (simp add: contract_string [OF assms, of "_ @ _"] contract_int64 [OF assms, of "_ @ _"]
          contract_byte [OF assms, of "_ @ _"] contract_string [OF assms, of "snd _"])
  with slot rec show ?thesis by simp
qed

text \<open>One turn of the loop, entered by reading the kind byte.\<close>

lemma loop_Keyspace:
  assumes "bson_contract b"
  shows "(do { (kind, buf) \<leftarrow> NextByte b (EncodeString b [] ''Keyspace'' v @ rest);
               UnmarshalBson_loop b s buf kind })
       = (do { (kind, buf) \<leftarrow> NextByte b rest;
               UnmarshalBson_loop b (s\<lparr>Keyspace := v\<rparr>) buf kind })"
proof -
  from contract_read_string [OF assms, of "''Keyspace''" v rest]
  obtain kind buf1 buf2 where
    "NextByte b (EncodeString b [] ''Keyspace'' v @ rest) = Some (kind, buf1)"
    "kind \<noteq> EOO b" "ReadCString b buf1 = Some (''Keyspace'', buf2)"
    "DecodeString b buf2 kind = Some (v, rest)"
    by auto
  then show ?thesis
    by (simp add: UnmarshalBson_loop.simps [of b s buf1 kind])
qed

lemma loop_Shard:
  assumes "bson_contract b"
  shows "(do { (kind, buf) \<leftarrow> NextByte b (EncodeString b [] ''Shard'' v @ rest);
               UnmarshalBson_loop b s buf kind })
       = (do { (kind, buf) \<leftarrow> NextByte b rest;
               UnmarshalBson_loop b (s\<lparr>Shard := v\<rparr>) buf kind })"
proof -
  from contract_read_string [OF assms, of "''Shard''" v rest]
  obtain kind buf1 buf2 where
    "NextByte b (EncodeString b [] ''Shard'' v @ rest) = Some (kind, buf1)"
    "kind \<noteq> EOO b" "ReadCString b buf1 = Some (''Shard'', buf2)"
    "DecodeString b buf2 kind = Some (v, rest)"
    by auto
  then show ?thesis
    by (simp add: UnmarshalBson_loop.simps [of b s buf1 kind])
qed

lemma loop_TabletType:
  assumes "bson_contract b"
  shows "(do { (kind, buf) \<leftarrow> NextByte b (EncodeString b [] ''TabletType'' v @ rest);
               UnmarshalBson_loop b s buf kind })
       = (do { (kind, buf) \<leftarrow> NextByte b rest;
               UnmarshalBson_loop b (s\<lparr>TabletType := v\<rparr>) buf kind })"
proof -
  from contract_read_string [OF assms, of "''TabletType''" v rest]
  obtain kind buf1 buf2 where
    "NextByte b (EncodeString b [] ''TabletType'' v @ rest) = Some (kind, buf1)"
    "kind \<noteq> EOO b" "ReadCString b buf1 = Some (''TabletType'', buf2)"
    "DecodeString b buf2 kind = Some (v, rest)"
    by auto
  then show ?thesis
    by (simp add: UnmarshalBson_loop.simps [of b s buf1 kind])
qed

lemma loop_TransactionId:
  assumes "bson_contract b"
  shows "(do { (kind, buf) \<leftarrow> NextByte b (EncodeInt64 b [] ''TransactionId'' v @ rest);
               UnmarshalBson_loop b s buf kind })
       = (do { (kind, buf) \<leftarrow> NextByte b rest;
               UnmarshalBson_loop b (s\<lparr>TransactionId := v\<rparr>) buf kind })"
proof -
  from contract_read_int64 [OF assms, of "''TransactionId''" v rest]
  obtain kind buf1 buf2 where
    "NextByte b (EncodeInt64 b [] ''TransactionId'' v @ rest) = Some (kind, buf1)"
    "kind \<noteq> EOO b" "ReadCString b buf1 = Some (''TransactionId'', buf2)"
    "DecodeInt64 b buf2 kind = Some (v, rest)"
    by auto
  then show ?thesis
    by (simp add: UnmarshalBson_loop.simps [of b s buf1 kind])
qed

lemma loop_end:
  assumes "bson_contract b"
  shows "(do { (kind, buf) \<leftarrow> NextByte b (WriteByte b [] (CHR 0x00) @ rest);
               UnmarshalBson_loop b s buf kind }) = Some (s, rest)"
  by (simp add: contract_end [OF assms] UnmarshalBson_loop.simps [of b s rest "EOO b"])

text \<open>
  C10: for every ShardSession value, what MarshalBson writes for it on a fresh writer is
  read back by UnmarshalBson, into any receiver, as a ShardSession with the same
  Keyspace, Shard, TabletType and TransactionId, and nothing but what follows the
  document is left unread. This holds for every implementation of the primitives that
  meets the contract.
\<close>

theorem ShardSession_roundtrip:
  assumes "bson_contract b"
  shows "UnmarshalBson_ShardSession b s0 (MarshalBson_ShardSession b s [] [] @ rest) (Object b)
           = Some (s, rest)"
proof -
  from MarshalBson_layout [OF assms, of s] obtain slot where slot: "length slot = 4"
    and layout: "MarshalBson_ShardSession b s [] [] =
             slot @ EncodeString b [] ''Keyspace'' (Keyspace s)
                  @ EncodeString b [] ''Shard'' (Shard s)
                  @ EncodeString b [] ''TabletType'' (TabletType s)
                  @ EncodeInt64 b [] ''TransactionId'' (TransactionId s)
                  @ WriteByte b [] (CHR 0x00)"
    by (elim exE conjE)
  have fields: "s0\<lparr>Keyspace := Keyspace s, Shard := Shard s, TabletType := TabletType s,
                    TransactionId := TransactionId s\<rparr> = s"
    by simp
  show ?thesis
    unfolding UnmarshalBson_ShardSession_def layout
    by (simp add: contract_object [OF assms] contract_next [OF assms slot]
          loop_Keyspace [OF assms] loop_Shard [OF assms] loop_TabletType [OF assms]
          loop_TransactionId [OF assms] loop_end [OF assms] fields)
qed

lemma unchunks_chunks: "unchunks (chunks v @ rest) = Some (v, rest)"
proof (induction v)
  case Nil
  then show ?case by (cases rest) simp_all
next
  case (Cons c v)
  then show ?case by simp
qed

lemma decode_bits:
  "horner_sum of_bool 2
     (map (\<lambda>c. c = CHR 0x01) (map (\<lambda>i. if bit v i then CHR 0x01 else CHR 0x00) [0..<64]))
   = (v :: 64 word)"
proof -
  have eq: "map (\<lambda>c. c = CHR 0x01) (map (\<lambda>i. if bit v i then CHR 0x01 else CHR 0x00) [0..<64])
          = map (bit v) [0..<64]"
    by (simp del: upt_rec_numeral)
  show ?thesis
    unfolding eq horner_sum_bit_eq_take_bit by (simp add: take_bit_word_eq_self)
qed

lemma read_cstring:
  "CHR 0x00 \<notin> set key \<Longrightarrow>
   takeWhile (\<lambda>c. c \<noteq> CHR 0x00) (key @ CHR 0x00 # rest) = key
   \<and> tl (dropWhile (\<lambda>c. c \<noteq> CHR 0x00) (key @ CHR 0x00 # rest)) = rest"
  by (induction key) auto

lemma plain_bson_contract: "bson_contract plain_bson"
  unfolding bson_contract_def
proof (intro conjI allI impI)
  fix key val rest
  assume key: "CHR 0x00 \<notin> set key"
  show "\<exists>kind buf1 buf2.
          NextByte plain_bson (EncodeString plain_bson [] key val @ rest) = Some (kind, buf1)
        \<and> kind \<noteq> EOO plain_bson
        \<and> ReadCString plain_bson buf1 = Some (key, buf2)
        \<and> DecodeString plain_bson buf2 kind = Some (val, rest)"
    using read_cstring [OF key, of "chunks val @ rest"]
    by (simp add: plain_bson_def unchunks_chunks)
next
  fix key and val :: "64 word" and rest
  assume key: "CHR 0x00 \<notin> set key"
  let ?bits = "map (\<lambda>i. if bit val i then CHR 0x01 else CHR 0x00) [0..<64]"
  show "\<exists>kind buf1 buf2.
          NextByte plain_bson (EncodeInt64 plain_bson [] key val @ rest) = Some (kind, buf1)
        \<and> kind \<noteq> EOO plain_bson
        \<and> ReadCString plain_bson buf1 = Some (key, buf2)
        \<and> DecodeInt64 plain_bson buf2 kind = Some (val, rest)"
    using read_cstring [OF key, of "?bits @ rest"] decode_bits [of val]
    by (simp add: plain_bson_def del: upt_rec_numeral)
next
  fix buf body
  show "\<exists>slot. length slot = 4
          \<and> RecordLen plain_bson (fst (NewLenWriter plain_bson buf))
               (snd (NewLenWriter plain_bson buf) @ body) = buf @ slot @ body"
    by (rule exI [of _ "le32 (4 + length body)"]) (simp add: plain_bson_def le32_def)
qed (simp_all add: plain_bson_def)

theorem ShardSession_roundtrip_witness:
  "UnmarshalBson_ShardSession plain_bson
     \<lparr>Keyspace = [], Shard = [], TabletType = [], TransactionId = 0\<rparr>
     (MarshalBson_ShardSession plain_bson
        \<lparr>Keyspace = ''test_keyspace'', Shard = ''-80'', TabletType = ''master'',
         TransactionId = 42\<rparr> [] [])
     (Object plain_bson)
   = Some (\<lparr>Keyspace = ''test_keyspace'', Shard = ''-80'', TabletType = ''master'',
            TransactionId = 42\<rparr>, [])"
  using ShardSession_roundtrip [OF plain_bson_contract, where rest = "[]"]
  by simp

end
